theory Spec2Isabelle
  imports Complex_Main
begin

unbundle bit_operations_syntax

section \<open>Data model of ReactFiberScheduler.js\<close>

subsection \<open>Priority levels\<close>

text \<open>
  Modelled from the spec: the module ReactPriorityLevel, which gives the four priority
  constants their numbers, is not part of the sources. Section 3 of the specification
  orders them \<open>Sync < Animation < Low < NoWork\<close> (a smaller number is more urgent,
  \<open>NoWork\<close> sorts last); \<open>level\<close> is that numbering, and the comparisons
  \<open>\<le>\<close>, \<open><\<close> of the scheduler are the comparisons of these numbers.
\<close>

datatype priorityLevel = SynchronousPriority | AnimationPriority | LowPriority | NoWork

primrec level :: "priorityLevel \<Rightarrow> nat" where
  "level SynchronousPriority = 1"
| "level AnimationPriority = 2"
| "level LowPriority = 3"
| "level NoWork = 4"

instantiation priorityLevel :: linorder
begin

definition less_eq_priorityLevel :: "priorityLevel \<Rightarrow> priorityLevel \<Rightarrow> bool" where
  "less_eq_priorityLevel p q \<longleftrightarrow> level p \<le> level q"

definition less_priorityLevel :: "priorityLevel \<Rightarrow> priorityLevel \<Rightarrow> bool" where
  "less_priorityLevel p q \<longleftrightarrow> level p < level q"

instance
proof
  fix p q :: priorityLevel
  show "p \<le> q \<Longrightarrow> q \<le> p \<Longrightarrow> p = q"
    by (cases p; cases q) (simp_all add: less_eq_priorityLevel_def)
qed (auto simp: less_eq_priorityLevel_def less_priorityLevel_def)

end

subsection \<open>Side-effect tags\<close>

text \<open>
  Modelled from the spec: the module ReactTypeOfSideEffect is not part of the sources.
  The specification describes \<open>effectTag\<close> as a bitset over Placement, Update,
  Deletion and Callback; the combined constants the scheduler imports are the unions
  their names spell out.
\<close>

type_synonym sideEffect = nat

definition NoEffect :: sideEffect where "NoEffect = 0"
definition Placement :: sideEffect where "Placement = 1"
definition Update :: sideEffect where "Update = 2"
definition PlacementAndUpdate :: sideEffect where "PlacementAndUpdate = 3"
definition Deletion :: sideEffect where "Deletion = 4"
definition Callback :: sideEffect where "Callback = 8"
definition PlacementAndCallback :: sideEffect where "PlacementAndCallback = 9"
definition UpdateAndCallback :: sideEffect where "UpdateAndCallback = 10"
definition PlacementAndUpdateAndCallback :: sideEffect where
  "PlacementAndUpdateAndCallback = 11"
definition DeletionAndCallback :: sideEffect where "DeletionAndCallback = 12"

subsection \<open>Fibers, roots and the scheduler's variables\<close>

text \<open>
  Fibers and roots are mutable objects that point at each other, so both live in a
  store and every reference is an address. \<open>None\<close> is JavaScript's \<open>null\<close>.
  Only the fields the scheduler reads or writes are kept (the scheduler never looks
  at \<open>child\<close>). The \<open>return\<close> field is called \<open>returnFiber\<close>, the name the
  source gives it in its local variables; \<open>stateNode\<close> is kept as the reference to a
  FiberRoot that the scheduler casts it to.
\<close>

type_synonym fiber_ref = nat
type_synonym root_ref = nat

datatype typeOfWork = HostContainer | OtherTypeOfWork

record fiber =
  tag :: typeOfWork
  stateNode :: "root_ref option"
  returnFiber :: "fiber_ref option"
  sibling :: "fiber_ref option"
  alternate :: "fiber_ref option"
  pendingProps :: "nat option"
  updateQueue :: "nat option"
  progressedChild :: "fiber_ref option"
  pendingWorkPriority :: priorityLevel
  effectTag :: sideEffect
  firstEffect :: "fiber_ref option"
  lastEffect :: "fiber_ref option"
  nextEffect :: "fiber_ref option"

text \<open>The registry link of a root is \<open>rootNext\<close> (\<open>root.nextScheduledRoot\<close> in the
  source), to keep it apart from the scheduler variable of the same name.\<close>

record fiberRoot =
  current :: fiber_ref
  isScheduled :: bool
  rootNext :: "root_ref option"

text \<open>Thrown values. \<open>Error\<close> carries the message of a \<open>new Error(...)\<close> of the
  scheduler, \<open>TypeError\<close> is a property read on \<open>null\<close>, \<open>Thrown\<close> is any
  error object raised by a collaborator. All of them are objects, hence truthy.\<close>

datatype err = Error string | TypeError | Thrown nat

record trappedError =
  boundary :: "fiber_ref option"
  error :: err

text \<open>The module-level variables of one scheduler instance, the two stores, the
  ReactCurrentOwner slot, and \<open>host\<close>: whatever state the host environment keeps.\<close>

record 'h scheduler =
  priorityContext :: priorityLevel
  shouldBatchUpdates :: bool
  nextUnitOfWork :: "fiber_ref option"
  nextPriorityLevel :: priorityLevel
  nextScheduledRoot :: "root_ref option"
  lastScheduledRoot :: "root_ref option"
  isAnimationCallbackScheduled :: bool
  isDeferredCallbackScheduled :: bool
  fibers :: "fiber_ref \<Rightarrow> fiber"
  roots :: "root_ref \<Rightarrow> fiberRoot"
  currentOwner :: "nat option"
  host :: 'h

subsection \<open>Collaborators\<close>

text \<open>
  The scheduler is a function of a host config and of the reconciliation modules
  (begin work, complete work, commit work, error boundaries, cloneFiber), none of which
  is in the sources: they are parameters. A collaborator that runs reconciler or user
  code may call back into the scheduler, so it is any function from the state to a
  thrown error or a result, together with the state it leaves.
  The two host timer primitives take the callback and return nothing; they act on the
  host state only. \<open>timeRemaining\<close> is the deadline object handed to the deferred
  callback.
\<close>

type_synonym ('a, 'h) ext = "'h scheduler \<Rightarrow> (err + 'a) \<times> 'h scheduler"

datatype hostCallback = PerformAnimationWork | PerformDeferredWork

record 'h config =
  beginWork :: "fiber_ref option \<Rightarrow> fiber_ref \<Rightarrow> priorityLevel \<Rightarrow> (fiber_ref option, 'h) ext"
  completeWork :: "fiber_ref option \<Rightarrow> fiber_ref \<Rightarrow> (fiber_ref option, 'h) ext"
  commitInsertion :: "fiber_ref \<Rightarrow> (unit, 'h) ext"
  commitDeletion :: "fiber_ref \<Rightarrow> (trappedError list option, 'h) ext"
  commitWork :: "fiber_ref option \<Rightarrow> fiber_ref \<Rightarrow> (unit, 'h) ext"
  commitLifeCycles :: "fiber_ref option \<Rightarrow> fiber_ref \<Rightarrow> (trappedError option, 'h) ext"
  trapError :: "fiber_ref \<Rightarrow> err \<Rightarrow> (trappedError, 'h) ext"
  acknowledgeErrorInBoundary :: "fiber_ref \<Rightarrow> err \<Rightarrow> (unit, 'h) ext"
  cloneFiber :: "fiber_ref \<Rightarrow> priorityLevel \<Rightarrow> (fiber_ref, 'h) ext"
  scheduleAnimationCallback :: "hostCallback \<Rightarrow> 'h \<Rightarrow> 'h"
  scheduleDeferredCallback :: "hostCallback \<Rightarrow> 'h \<Rightarrow> 'h"
  useSyncScheduling :: bool

type_synonym 'h deadline = "'h scheduler \<Rightarrow> rat"

subsection \<open>Computations that may throw or not return\<close>

text \<open>
  A scheduler function that can throw returns \<open>Inl\<close> the thrown value or \<open>Inr\<close>
  its result, with the state at that moment. Loops over the stores and the re-entrant
  error pipeline take fuel; running out of fuel is \<open>None\<close>.
\<close>

type_synonym ('a, 'h) run = "'h scheduler \<Rightarrow> ((err + 'a) \<times> 'h scheduler) option"

definition ret :: "'a \<Rightarrow> ('a, 'h) run" where
  "ret x = (\<lambda>s. Some (Inr x, s))"

definition throw :: "err \<Rightarrow> ('a, 'h) run" where
  "throw e = (\<lambda>s. Some (Inl e, s))"

definition bind :: "('a, 'h) run \<Rightarrow> ('a \<Rightarrow> ('b, 'h) run) \<Rightarrow> ('b, 'h) run" where
  "bind m f = (\<lambda>s. case m s of
      None \<Rightarrow> None
    | Some (Inl e, s') \<Rightarrow> Some (Inl e, s')
    | Some (Inr x, s') \<Rightarrow> f x s')"

definition gets :: "('h scheduler \<Rightarrow> 'a) \<Rightarrow> ('a, 'h) run" where
  "gets f = (\<lambda>s. Some (Inr (f s), s))"

definition modify :: "('h scheduler \<Rightarrow> 'h scheduler) \<Rightarrow> (unit, 'h) run" where
  "modify f = (\<lambda>s. Some (Inr (), f s))"

definition call :: "('a, 'h) ext \<Rightarrow> ('a, 'h) run" where
  "call c = (\<lambda>s. Some (c s))"

definition tryCatch :: "('a, 'h) run \<Rightarrow> (err \<Rightarrow> ('a, 'h) run) \<Rightarrow> ('a, 'h) run" where
  "tryCatch m h = (\<lambda>s. case m s of
      None \<Rightarrow> None
    | Some (Inl e, s') \<Rightarrow> h e s'
    | Some (Inr x, s') \<Rightarrow> Some (Inr x, s'))"

text \<open>\<open>try { m } finally { fin }\<close>: \<open>fin\<close> runs on both exits; if it throws, its
  error replaces the outcome of \<open>m\<close>.\<close>

definition tryFinally :: "('a, 'h) run \<Rightarrow> (unit, 'h) run \<Rightarrow> ('a, 'h) run" where
  "tryFinally m fin = (\<lambda>s. case m s of
      None \<Rightarrow> None
    | Some (r, s') \<Rightarrow> (case fin s' of
          None \<Rightarrow> None
        | Some (Inl e, s'') \<Rightarrow> Some (Inl e, s'')
        | Some (Inr u, s'') \<Rightarrow> Some (r, s'')))"

text \<open>Writes to one object of a store.\<close>

definition setFiber :: "fiber_ref \<Rightarrow> (fiber \<Rightarrow> fiber) \<Rightarrow> 'h scheduler \<Rightarrow> 'h scheduler" where
  "setFiber f upd s = s\<lparr>fibers := (fibers s)(f := upd (fibers s f))\<rparr>"

definition setRoot :: "root_ref \<Rightarrow> (fiberRoot \<Rightarrow> fiberRoot) \<Rightarrow> 'h scheduler \<Rightarrow> 'h scheduler" where
  "setRoot r upd s = s\<lparr>roots := (roots s)(r := upd (roots s r))\<rparr>"

text \<open>\<open>root.current.pendingWorkPriority\<close>\<close>

definition rootPriority :: "'h scheduler \<Rightarrow> root_ref \<Rightarrow> priorityLevel" where
  "rootPriority s r = pendingWorkPriority (fibers s (current (roots s r)))"

section \<open>The scheduler\<close>

subsection \<open>findNextUnitOfWork\<close>

text \<open>The first loop of findNextUnitOfWork (lines 91-108). The result is \<open>True\<close>
  when the loop left the function through its \<open>return null\<close>.\<close>

fun clearRoots :: "nat \<Rightarrow> 'h scheduler \<Rightarrow> (bool \<times> 'h scheduler) option" where
  "clearRoots 0 s = None"
| "clearRoots (Suc n) s =
    (case nextScheduledRoot s of
       None \<Rightarrow> Some (False, s)
     | Some r \<Rightarrow>
        if rootPriority s r \<noteq> NoWork then Some (False, s)
        else
          let s1 = setRoot r (\<lambda>x. x\<lparr>isScheduled := False\<rparr>) s;
              next = rootNext (roots s1 r);
              s2 = setRoot r (\<lambda>x. x\<lparr>rootNext := None\<rparr>) s1
          in if nextScheduledRoot s2 = lastScheduledRoot s2
             then Some (True, s2\<lparr>nextScheduledRoot := None, lastScheduledRoot := None,
                                 nextPriorityLevel := NoWork\<rparr>)
             else clearRoots n (s2\<lparr>nextScheduledRoot := next\<rparr>))"

text \<open>The second loop (lines 109-121), over \<open>root\<close> (here \<open>rt\<close>), \<open>highestPriorityRoot\<close> and
  \<open>highestPriorityLevel\<close>.\<close>

fun scanRoots :: "nat \<Rightarrow> 'h scheduler \<Rightarrow> root_ref option \<Rightarrow> root_ref option \<Rightarrow> priorityLevel
    \<Rightarrow> (root_ref option \<times> priorityLevel) option" where
  "scanRoots 0 s rt highestPriorityRoot highestPriorityLevel = None"
| "scanRoots (Suc n) s rt highestPriorityRoot highestPriorityLevel =
    (case rt of
       None \<Rightarrow> Some (highestPriorityRoot, highestPriorityLevel)
     | Some r \<Rightarrow>
        if rootPriority s r \<noteq> NoWork \<and>
           (highestPriorityLevel = NoWork \<or> highestPriorityLevel > rootPriority s r)
        then scanRoots n s (rootNext (roots s r)) (Some r) (rootPriority s r)
        else scanRoots n s (rootNext (roots s r)) highestPriorityRoot highestPriorityLevel)"

definition findNextUnitOfWork :: "'h config \<Rightarrow> nat \<Rightarrow> (fiber_ref option, 'h) run" where
  "findNextUnitOfWork cfg n = (\<lambda>s.
     case clearRoots n s of
       None \<Rightarrow> None
     | Some (True, s1) \<Rightarrow> Some (Inr None, s1)
     | Some (False, s1) \<Rightarrow>
        (case scanRoots n s1 (nextScheduledRoot s1) None NoWork of
           None \<Rightarrow> None
         | Some (Some r, highestPriorityLevel) \<Rightarrow>
             bind (call (cloneFiber cfg (current (roots s1 r)) highestPriorityLevel))
                  (\<lambda>clone. ret (Some clone))
                  (s1\<lparr>nextPriorityLevel := highestPriorityLevel\<rparr>)
         | Some (None, highestPriorityLevel) \<Rightarrow>
             Some (Inr None, s1\<lparr>nextPriorityLevel := NoWork\<rparr>)))"

subsection \<open>commitAllWork\<close>

text \<open>\<open>allTrappedErrors = allTrappedErrors || []; allTrappedErrors.push(e)\<close>\<close>

definition pushError :: "trappedError list option \<Rightarrow> trappedError \<Rightarrow> trappedError list option" where
  "pushError allTrappedErrors e =
     (case allTrappedErrors of None \<Rightarrow> Some [e] | Some es \<Rightarrow> Some (es @ [e]))"

text \<open>The first pass over the effect list (lines 145-194): host insertions, updates
  and deletions. The \<open>switch\<close> compares the whole tag with the listed constants; a tag
  that is none of them takes no branch.\<close>

fun commitMutations :: "'h config \<Rightarrow> bool \<Rightarrow> nat \<Rightarrow> fiber_ref option
    \<Rightarrow> trappedError list option \<Rightarrow> (trappedError list option, 'h) run" where
  "commitMutations cfg ignoreUnmountingErrors 0 effectfulFiber allTrappedErrors = (\<lambda>s. None)"
| "commitMutations cfg ignoreUnmountingErrors (Suc n) effectfulFiber allTrappedErrors =
    (case effectfulFiber of
       None \<Rightarrow> ret allTrappedErrors
     | Some f \<Rightarrow>
        bind (gets (\<lambda>s. effectTag (fibers s f))) (\<lambda>t.
        bind
          (if t = Placement \<or> t = PlacementAndCallback then
             bind (call (commitInsertion cfg f)) (\<lambda>u.
             bind (modify (setFiber f (\<lambda>x. x\<lparr>effectTag := NoEffect\<rparr>))) (\<lambda>u.
             ret allTrappedErrors))
           else if t = PlacementAndUpdate \<or> t = PlacementAndUpdateAndCallback then
             bind (call (commitInsertion cfg f)) (\<lambda>u.
             bind (modify (setFiber f (\<lambda>x. x\<lparr>effectTag := Update\<rparr>))) (\<lambda>u.
             bind (gets (\<lambda>s. alternate (fibers s f))) (\<lambda>cur.
             bind (call (commitWork cfg cur f)) (\<lambda>u.
             ret allTrappedErrors))))
           else if t = Update \<or> t = UpdateAndCallback then
             bind (gets (\<lambda>s. alternate (fibers s f))) (\<lambda>cur.
             bind (call (commitWork cfg cur f)) (\<lambda>u.
             ret allTrappedErrors))
           else if t = Deletion \<or> t = DeletionAndCallback then
             bind (call (commitDeletion cfg f)) (\<lambda>trappedErrors.
             ret (case trappedErrors of
                    None \<Rightarrow> allTrappedErrors
                  | Some es \<Rightarrow>
                      if \<not> ignoreUnmountingErrors
                      then (case allTrappedErrors of None \<Rightarrow> Some es | Some as \<Rightarrow> Some (as @ es))
                      else allTrappedErrors))
           else ret allTrappedErrors)
          (\<lambda>allTrappedErrors'.
        bind (gets (\<lambda>s. nextEffect (fibers s f))) (\<lambda>next.
        commitMutations cfg ignoreUnmountingErrors n next allTrappedErrors'))))"

text \<open>The second pass (lines 199-218): life-cycles and callbacks, unlinking the list.\<close>

fun commitLifeCyclesPass :: "'h config \<Rightarrow> nat \<Rightarrow> fiber_ref option
    \<Rightarrow> trappedError list option \<Rightarrow> (trappedError list option, 'h) run" where
  "commitLifeCyclesPass cfg 0 effectfulFiber allTrappedErrors = (\<lambda>s. None)"
| "commitLifeCyclesPass cfg (Suc n) effectfulFiber allTrappedErrors =
    (case effectfulFiber of
       None \<Rightarrow> ret allTrappedErrors
     | Some f \<Rightarrow>
        bind (gets (\<lambda>s. effectTag (fibers s f))) (\<lambda>t.
        bind
          (if t AND (Update OR Callback) \<noteq> 0 then
             bind (gets (\<lambda>s. alternate (fibers s f))) (\<lambda>cur.
             bind (call (commitLifeCycles cfg cur f)) (\<lambda>trappedError.
             ret (case trappedError of
                    None \<Rightarrow> allTrappedErrors
                  | Some e \<Rightarrow> pushError allTrappedErrors e)))
           else ret allTrappedErrors)
          (\<lambda>allTrappedErrors'.
        bind (gets (\<lambda>s. nextEffect (fibers s f))) (\<lambda>next.
        bind (modify (setFiber f (\<lambda>x. x\<lparr>nextEffect := None\<rparr>))) (\<lambda>u.
        commitLifeCyclesPass cfg n next allTrappedErrors')))))"

text \<open>
  commitAllWork and handleErrors call each other (a commit hands its trapped errors to
  handleErrors, which re-renders boundaries and so commits again). The functions
  between the two take handleErrors as the parameter \<open>he\<close>; handleErrors itself closes
  the cycle by recursion on the fuel.
\<close>

definition commitAllWork :: "(trappedError list \<Rightarrow> (unit, 'h) run) \<Rightarrow> 'h config \<Rightarrow> nat
    \<Rightarrow> fiber_ref \<Rightarrow> bool \<Rightarrow> (unit, 'h) run" where
  "commitAllWork he cfg n finishedWork ignoreUnmountingErrors =
     bind (gets (\<lambda>s. firstEffect (fibers s finishedWork))) (\<lambda>effectfulFiber.
     bind (commitMutations cfg ignoreUnmountingErrors n effectfulFiber None) (\<lambda>errs1.
     bind (gets (\<lambda>s. firstEffect (fibers s finishedWork))) (\<lambda>effectfulFiber.
     bind (commitLifeCyclesPass cfg n effectfulFiber errs1) (\<lambda>errs2.
     bind (gets (\<lambda>s. effectTag (fibers s finishedWork))) (\<lambda>t.
     bind
       (if t \<noteq> NoEffect then
          bind (gets (\<lambda>s. alternate (fibers s finishedWork))) (\<lambda>cur.
          bind (call (commitWork cfg cur finishedWork)) (\<lambda>u.
          bind (call (commitLifeCycles cfg cur finishedWork)) (\<lambda>trappedError.
          ret (case trappedError of
                 None \<Rightarrow> errs2
               | Some e \<Rightarrow> pushError errs2 e))))
        else ret errs2)
       (\<lambda>allTrappedErrors.
     case allTrappedErrors of
       None \<Rightarrow> ret ()
     | Some es \<Rightarrow> he es))))))"

subsection \<open>resetWorkPriority and completeUnitOfWork\<close>

fun bubblePriority :: "nat \<Rightarrow> 'h scheduler \<Rightarrow> fiber_ref option \<Rightarrow> priorityLevel
    \<Rightarrow> priorityLevel option" where
  "bubblePriority 0 s child newPriority = None"
| "bubblePriority (Suc n) s child newPriority =
    (case child of
       None \<Rightarrow> Some newPriority
     | Some c \<Rightarrow>
        bubblePriority n s (sibling (fibers s c))
          (if pendingWorkPriority (fibers s c) \<noteq> NoWork \<and>
              (newPriority = NoWork \<or> newPriority > pendingWorkPriority (fibers s c))
           then pendingWorkPriority (fibers s c) else newPriority))"

definition resetWorkPriority :: "nat \<Rightarrow> fiber_ref \<Rightarrow> (unit, 'h) run" where
  "resetWorkPriority n workInProgress = (\<lambda>s.
     case bubblePriority n s (progressedChild (fibers s workInProgress)) NoWork of
       None \<Rightarrow> None
     | Some newPriority \<Rightarrow>
         Some (Inr (), setFiber workInProgress (\<lambda>x. x\<lparr>pendingWorkPriority := newPriority\<rparr>) s))"

text \<open>Lines 275-301: the effects of the completed fiber are appended to the effect
  list of its parent \<open>rf\<close>, then the fiber itself if it has an effect. Every
  assignment is a write to the store, in the order of the source, so that aliased
  fibers behave as in the source. The three \<open>if\<close> statements are three functions.\<close>

text \<open>Lines 278-280.\<close>

definition inheritFirstEffect :: "fiber_ref \<Rightarrow> fiber_ref \<Rightarrow> 'h scheduler \<Rightarrow> 'h scheduler" where
  "inheritFirstEffect workInProgress rf s =
     (if firstEffect (fibers s rf) = None
      then setFiber rf (\<lambda>x. x\<lparr>firstEffect := firstEffect (fibers s workInProgress)\<rparr>) s
      else s)"

text \<open>Lines 281-286.\<close>

definition appendChildEffects :: "fiber_ref \<Rightarrow> fiber_ref \<Rightarrow> 'h scheduler \<Rightarrow> 'h scheduler" where
  "appendChildEffects workInProgress rf s =
     (if lastEffect (fibers s workInProgress) \<noteq> None
      then
        (let s' = (case lastEffect (fibers s rf) of
                     None \<Rightarrow> s
                   | Some l \<Rightarrow> setFiber l
                       (\<lambda>x. x\<lparr>nextEffect := firstEffect (fibers s workInProgress)\<rparr>) s)
         in setFiber rf (\<lambda>x. x\<lparr>lastEffect := lastEffect (fibers s' workInProgress)\<rparr>) s')
      else s)"

text \<open>Lines 294-301.\<close>

definition appendOwnEffect :: "fiber_ref \<Rightarrow> fiber_ref \<Rightarrow> 'h scheduler \<Rightarrow> 'h scheduler" where
  "appendOwnEffect workInProgress rf s =
     (if effectTag (fibers s workInProgress) \<noteq> NoEffect
      then
        (let s' = (case lastEffect (fibers s rf) of
                     None \<Rightarrow> setFiber rf (\<lambda>x. x\<lparr>firstEffect := Some workInProgress\<rparr>) s
                   | Some l \<Rightarrow> setFiber l (\<lambda>x. x\<lparr>nextEffect := Some workInProgress\<rparr>) s)
         in setFiber rf (\<lambda>x. x\<lparr>lastEffect := Some workInProgress\<rparr>) s')
      else s)"

definition appendEffects :: "fiber_ref \<Rightarrow> fiber_ref \<Rightarrow> 'h scheduler \<Rightarrow> 'h scheduler" where
  "appendEffects workInProgress rf s =
     appendOwnEffect workInProgress rf
       (appendChildEffects workInProgress rf
          (inheritFirstEffect workInProgress rf s))"

fun completeUnitOfWork :: "(trappedError list \<Rightarrow> (unit, 'h) run) \<Rightarrow> 'h config \<Rightarrow> nat
    \<Rightarrow> fiber_ref \<Rightarrow> bool \<Rightarrow> (fiber_ref option, 'h) run" where
  "completeUnitOfWork he cfg 0 workInProgress ignoreUnmountingErrors = (\<lambda>s. None)"
| "completeUnitOfWork he cfg (Suc n) workInProgress ignoreUnmountingErrors =
     bind (gets (\<lambda>s. alternate (fibers s workInProgress))) (\<lambda>cur.
     bind (call (completeWork cfg cur workInProgress)) (\<lambda>next.
     bind (resetWorkPriority n workInProgress) (\<lambda>u.
     bind (modify (setFiber workInProgress (\<lambda>x. x\<lparr>pendingProps := None\<rparr>))) (\<lambda>u.
     bind (modify (setFiber workInProgress (\<lambda>x. x\<lparr>updateQueue := None\<rparr>))) (\<lambda>u.
     bind (gets (\<lambda>s. returnFiber (fibers s workInProgress))) (\<lambda>parent.
     bind (case parent of
             None \<Rightarrow> ret ()
           | Some rf \<Rightarrow> modify (appendEffects workInProgress rf)) (\<lambda>u.
     case next of
       Some nx \<Rightarrow> ret (Some nx)
     | None \<Rightarrow>
        bind (gets (\<lambda>s. sibling (fibers s workInProgress))) (\<lambda>sib.
        case sib of
          Some sb \<Rightarrow> ret (Some sb)
        | None \<Rightarrow>
           (case parent of
              Some rf \<Rightarrow> completeUnitOfWork he cfg n rf ignoreUnmountingErrors
            | None \<Rightarrow>
               bind (gets (\<lambda>s. stateNode (fibers s workInProgress))) (\<lambda>node.
               case node of
                 None \<Rightarrow> throw TypeError
               | Some r \<Rightarrow>
                  bind (gets (\<lambda>s. current (roots s r))) (\<lambda>c.
                  if c = workInProgress
                  then throw (Error (''Cannot commit the same tree as before. This is probably a bug '' @
                                     ''related to the return field.''))
                  else
                    bind (modify (setRoot r (\<lambda>x. x\<lparr>current := workInProgress\<rparr>))) (\<lambda>u.
                    bind (commitAllWork he cfg n workInProgress ignoreUnmountingErrors) (\<lambda>u.
                    findNextUnitOfWork cfg n)))))))))))))"

subsection \<open>performUnitOfWork\<close>

text \<open>The \<open>__DEV__\<close> instrumentation hooks are left out.\<close>

definition performUnitOfWork :: "(trappedError list \<Rightarrow> (unit, 'h) run) \<Rightarrow> 'h config \<Rightarrow> nat
    \<Rightarrow> fiber_ref \<Rightarrow> bool \<Rightarrow> (fiber_ref option, 'h) run" where
  "performUnitOfWork he cfg n workInProgress ignoreUnmountingErrors =
     bind (gets (\<lambda>s. alternate (fibers s workInProgress))) (\<lambda>cur.
     bind (gets nextPriorityLevel) (\<lambda>lvl.
     bind (call (beginWork cfg cur workInProgress lvl)) (\<lambda>next.
     bind (case next of
             None \<Rightarrow> completeUnitOfWork he cfg n workInProgress ignoreUnmountingErrors
           | Some nx \<Rightarrow> ret (Some nx)) (\<lambda>next'.
     bind (modify (\<lambda>s. s\<lparr>currentOwner := None\<rparr>)) (\<lambda>u.
     ret next')))))"

subsection \<open>Scheduling deferred and animation work\<close>

definition timeHeuristicForUnitOfWork :: rat where
  "timeHeuristicForUnitOfWork = 1"

text \<open>Lines 386-389, 427-430, 446-449, 523-526: request the deferred host callback
  unless one is outstanding.\<close>

definition requestDeferredCallback :: "'h config \<Rightarrow> 'h scheduler \<Rightarrow> 'h scheduler" where
  "requestDeferredCallback cfg s =
     (if \<not> isDeferredCallbackScheduled s
      then s\<lparr>isDeferredCallbackScheduled := True,
             host := scheduleDeferredCallback cfg PerformDeferredWork (host s)\<rparr>
      else s)"

text \<open>Lines 478-481, 529-532: the same for the animation callback.\<close>

definition requestAnimationCallback :: "'h config \<Rightarrow> 'h scheduler \<Rightarrow> 'h scheduler" where
  "requestAnimationCallback cfg s =
     (if \<not> isAnimationCallbackScheduled s
      then s\<lparr>isAnimationCallbackScheduled := True,
             host := scheduleAnimationCallback cfg PerformAnimationWork (host s)\<rparr>
      else s)"

definition scheduleDeferredWork :: "'h config \<Rightarrow> root_ref \<Rightarrow> priorityLevel
    \<Rightarrow> 'h scheduler \<Rightarrow> 'h scheduler" where
  "scheduleDeferredWork cfg r priority s =
    (let s1 = (if priority \<le> nextPriorityLevel s then s\<lparr>nextUnitOfWork := None\<rparr> else s);
         s2 = (if rootPriority s1 r = NoWork \<or> priority \<le> rootPriority s1 r
               then setFiber (current (roots s1 r)) (\<lambda>x. x\<lparr>pendingWorkPriority := priority\<rparr>) s1
               else s1);
         s3 = (if \<not> isScheduled (roots s2 r)
               then
                 (let s2' = setRoot r (\<lambda>x. x\<lparr>isScheduled := True\<rparr>) s2
                  in case lastScheduledRoot s2' of
                       Some l \<Rightarrow> (setRoot l (\<lambda>x. x\<lparr>rootNext := Some r\<rparr>) s2')
                                   \<lparr>lastScheduledRoot := Some r\<rparr>
                     | None \<Rightarrow> s2'\<lparr>nextScheduledRoot := Some r, lastScheduledRoot := Some r\<rparr>)
               else s2)
     in requestDeferredCallback cfg s3)"

definition scheduleAnimationWork :: "'h config \<Rightarrow> root_ref \<Rightarrow> priorityLevel
    \<Rightarrow> 'h scheduler \<Rightarrow> 'h scheduler" where
  "scheduleAnimationWork cfg r priorityLevel s =
    (let s2 = (if rootPriority s r = NoWork \<or> priorityLevel \<le> rootPriority s r
               then setFiber (current (roots s r)) (\<lambda>x. x\<lparr>pendingWorkPriority := priorityLevel\<rparr>) s
               else s);
         s3 = (if \<not> isScheduled (roots s2 r)
               then
                 (let s2' = setRoot r (\<lambda>x. x\<lparr>isScheduled := True\<rparr>) s2
                  in case lastScheduledRoot s2' of
                       Some l \<Rightarrow> (setRoot l (\<lambda>x. x\<lparr>rootNext := Some r\<rparr>) s2')
                                   \<lparr>lastScheduledRoot := Some r\<rparr>
                     | None \<Rightarrow> s2'\<lparr>nextScheduledRoot := Some r, lastScheduledRoot := Some r\<rparr>)
               else s2)
     in requestAnimationCallback cfg s3)"

subsection \<open>scheduleErrorBoundaryWork\<close>

fun scheduleErrorBoundaryWork :: "nat \<Rightarrow> fiber_ref \<Rightarrow> priorityLevel \<Rightarrow> (root_ref, 'h) run" where
  "scheduleErrorBoundaryWork 0 fiber priority = (\<lambda>s. None)"
| "scheduleErrorBoundaryWork (Suc n) fiber priority =
     bind (modify (setFiber fiber (\<lambda>x. x\<lparr>pendingWorkPriority := priority\<rparr>))) (\<lambda>u.
     bind (gets (\<lambda>s. alternate (fibers s fiber))) (\<lambda>alt.
     bind (case alt of
             None \<Rightarrow> ret ()
           | Some a \<Rightarrow> modify (setFiber a (\<lambda>x. x\<lparr>pendingWorkPriority := priority\<rparr>))) (\<lambda>u.
     bind (gets (\<lambda>s. returnFiber (fibers s fiber))) (\<lambda>parent.
     case parent of
       Some rf \<Rightarrow> scheduleErrorBoundaryWork n rf priority
     | None \<Rightarrow>
        bind (gets (\<lambda>s. tag (fibers s fiber))) (\<lambda>t.
        if t = HostContainer
        then bind (gets (\<lambda>s. stateNode (fibers s fiber))) (\<lambda>node.
             case node of
               None \<Rightarrow> throw (Error ''Could not find root from the boundary.'')
             | Some r \<Rightarrow> ret r)
        else throw (Error ''Invalid root''))))))"

subsection \<open>handleErrors\<close>

text \<open>The first \<open>forEach\<close> of an iteration (lines 613-633), over \<open>firstUncaughtError\<close>,
  \<open>affectedBoundaries\<close> (a Set, kept in insertion order) and \<open>nextTrappedErrors\<close>.\<close>

fun acknowledgeErrors :: "'h config \<Rightarrow> trappedError list \<Rightarrow> err option \<Rightarrow> fiber_ref list
    \<Rightarrow> trappedError list option
    \<Rightarrow> (err option \<times> fiber_ref list \<times> trappedError list option, 'h) run" where
  "acknowledgeErrors cfg [] firstUncaughtError affectedBoundaries nextTrappedErrors =
     ret (firstUncaughtError, affectedBoundaries, nextTrappedErrors)"
| "acknowledgeErrors cfg (trappedError # rest) firstUncaughtError affectedBoundaries nextTrappedErrors =
    (case boundary trappedError of
       None \<Rightarrow>
         acknowledgeErrors cfg rest
           (case firstUncaughtError of None \<Rightarrow> Some (error trappedError) | Some e \<Rightarrow> Some e)
           affectedBoundaries nextTrappedErrors
     | Some b \<Rightarrow>
         if b \<in> set affectedBoundaries
         then acknowledgeErrors cfg rest firstUncaughtError affectedBoundaries nextTrappedErrors
         else
           bind (tryCatch
                   (bind (call (acknowledgeErrorInBoundary cfg b (error trappedError))) (\<lambda>u.
                    ret (affectedBoundaries @ [b], nextTrappedErrors)))
                   (\<lambda>nextError.
                    bind (call (trapError cfg b nextError)) (\<lambda>e.
                    ret (affectedBoundaries, pushError nextTrappedErrors e))))
             (\<lambda>(affectedBoundaries', nextTrappedErrors').
           acknowledgeErrors cfg rest firstUncaughtError affectedBoundaries' nextTrappedErrors'))"

text \<open>Lines 642-646: \<open>while (fiber) fiber = performUnitOfWork(fiber, true)\<close>.\<close>

fun renderBoundary :: "(trappedError list \<Rightarrow> (unit, 'h) run) \<Rightarrow> 'h config \<Rightarrow> nat
    \<Rightarrow> fiber_ref option \<Rightarrow> (unit, 'h) run" where
  "renderBoundary he cfg 0 fiber = (\<lambda>s. None)"
| "renderBoundary he cfg (Suc n) fiber =
    (case fiber of
       None \<Rightarrow> ret ()
     | Some f \<Rightarrow> bind (performUnitOfWork he cfg n f True) (renderBoundary he cfg n))"

text \<open>The second \<open>forEach\<close> (lines 636-652), over \<open>nextTrappedErrors\<close>.\<close>

fun renderBoundaries :: "(trappedError list \<Rightarrow> (unit, 'h) run) \<Rightarrow> 'h config \<Rightarrow> nat
    \<Rightarrow> fiber_ref list \<Rightarrow> trappedError list option \<Rightarrow> (trappedError list option, 'h) run" where
  "renderBoundaries he cfg n [] nextTrappedErrors = ret nextTrappedErrors"
| "renderBoundaries he cfg n (b # rest) nextTrappedErrors =
     bind (gets priorityContext) (\<lambda>priority.
     bind (scheduleErrorBoundaryWork n b priority) (\<lambda>r.
     bind (gets (\<lambda>s. current (roots s r))) (\<lambda>c.
     bind (call (cloneFiber cfg c priority)) (\<lambda>fiber.
     bind (tryCatch
             (bind (renderBoundary he cfg n (Some fiber)) (\<lambda>u. ret nextTrappedErrors))
             (\<lambda>nextError.
              bind (call (trapError cfg b nextError)) (\<lambda>e.
              ret (pushError nextTrappedErrors e))))
       (\<lambda>nextTrappedErrors'.
     renderBoundaries he cfg n rest nextTrappedErrors')))))"

text \<open>The loop \<open>while (nextTrappedErrors)\<close> (lines 607-653); it returns
  \<open>firstUncaughtError\<close>.\<close>

fun handleErrorsLoop :: "(trappedError list \<Rightarrow> (unit, 'h) run) \<Rightarrow> 'h config \<Rightarrow> nat
    \<Rightarrow> trappedError list option \<Rightarrow> err option \<Rightarrow> (err option, 'h) run" where
  "handleErrorsLoop he cfg 0 nextTrappedErrors firstUncaughtError = (\<lambda>s. None)"
| "handleErrorsLoop he cfg (Suc n) nextTrappedErrors firstUncaughtError =
    (case nextTrappedErrors of
       None \<Rightarrow> ret firstUncaughtError
     | Some trappedErrors \<Rightarrow>
        bind (acknowledgeErrors cfg trappedErrors firstUncaughtError [] None)
          (\<lambda>(firstUncaughtError', affectedBoundaries, nextTrappedErrors').
        bind (renderBoundaries he cfg n affectedBoundaries nextTrappedErrors')
          (\<lambda>nextTrappedErrors''.
        handleErrorsLoop he cfg n nextTrappedErrors'' firstUncaughtError')))"

text \<open>Lines 655-667: what handleErrors does once the loop has ended.\<close>

definition surfaceUncaughtError :: "err option \<Rightarrow> (unit, 'h) run" where
  "surfaceUncaughtError firstUncaughtError =
     bind (modify (\<lambda>s. s\<lparr>currentOwner := None\<rparr>)) (\<lambda>u.
     case firstUncaughtError of
       None \<Rightarrow> ret ()
     | Some e \<Rightarrow>
        bind (modify (\<lambda>s. s\<lparr>nextScheduledRoot := None\<rparr>)) (\<lambda>u.
        bind (modify (\<lambda>s. s\<lparr>lastScheduledRoot := None\<rparr>)) (\<lambda>u.
        throw e)))"

text \<open>handleErrors: one unit of fuel for each level of re-entry (a boundary's render
  commits, and that commit may call handleErrors again).\<close>

fun handleErrors :: "'h config \<Rightarrow> nat \<Rightarrow> trappedError list \<Rightarrow> (unit, 'h) run" where
  "handleErrors cfg 0 initialTrappedErrors = (\<lambda>s. None)"
| "handleErrors cfg (Suc n) initialTrappedErrors =
     bind (handleErrorsLoop (handleErrors cfg n) cfg (Suc n) (Some initialTrappedErrors) None)
          surfaceUncaughtError"

subsection \<open>The three work loops\<close>

text \<open>\<open>nextUnitOfWork = findNextUnitOfWork()\<close>\<close>

definition findMoreWork :: "'h config \<Rightarrow> nat \<Rightarrow> (unit, 'h) run" where
  "findMoreWork cfg n =
     bind (findNextUnitOfWork cfg n) (\<lambda>w. modify (\<lambda>s. s\<lparr>nextUnitOfWork := w\<rparr>))"

text \<open>\<open>nextUnitOfWork = performUnitOfWork(nextUnitOfWork, false)\<close>, followed by the
  search for more work when that came back \<open>null\<close>.\<close>

definition performNextUnit :: "'h config \<Rightarrow> nat \<Rightarrow> fiber_ref \<Rightarrow> (unit, 'h) run" where
  "performNextUnit cfg n f =
     bind (performUnitOfWork (handleErrors cfg n) cfg n f False) (\<lambda>next.
     bind (modify (\<lambda>s. s\<lparr>nextUnitOfWork := next\<rparr>)) (\<lambda>u.
     case next of
       None \<Rightarrow> findMoreWork cfg n
     | Some nx \<Rightarrow> ret ()))"

fun deferredLoop :: "'h config \<Rightarrow> nat \<Rightarrow> 'h deadline \<Rightarrow> (unit, 'h) run" where
  "deferredLoop cfg 0 deadline = (\<lambda>s. None)"
| "deferredLoop cfg (Suc n) deadline =
     bind (gets nextUnitOfWork) (\<lambda>w.
     case w of
       None \<Rightarrow> ret ()
     | Some f \<Rightarrow>
        bind (gets deadline) (\<lambda>timeRemaining.
        if timeRemaining > timeHeuristicForUnitOfWork
        then bind (performNextUnit cfg n f) (\<lambda>u. deferredLoop cfg n deadline)
        else modify (requestDeferredCallback cfg)))"

definition performDeferredWorkUnsafe :: "'h config \<Rightarrow> nat \<Rightarrow> 'h deadline \<Rightarrow> (unit, 'h) run" where
  "performDeferredWorkUnsafe cfg n deadline =
     bind (gets nextUnitOfWork) (\<lambda>w.
     bind (case w of
             None \<Rightarrow> findMoreWork cfg n
           | Some f \<Rightarrow> ret ()) (\<lambda>u.
     deferredLoop cfg n deadline))"

fun animationLoop :: "'h config \<Rightarrow> nat \<Rightarrow> (unit, 'h) run" where
  "animationLoop cfg 0 = (\<lambda>s. None)"
| "animationLoop cfg (Suc n) =
     bind (gets nextUnitOfWork) (\<lambda>w.
     bind (gets nextPriorityLevel) (\<lambda>lvl.
     case w of
       None \<Rightarrow> ret ()
     | Some f \<Rightarrow>
        if lvl \<noteq> NoWork \<and> lvl \<le> AnimationPriority
        then bind (performNextUnit cfg n f) (\<lambda>u. animationLoop cfg n)
        else ret ()))"

definition performAnimationWorkUnsafe :: "'h config \<Rightarrow> nat \<Rightarrow> (unit, 'h) run" where
  "performAnimationWorkUnsafe cfg n =
     bind (findMoreWork cfg n) (\<lambda>u.
     bind (animationLoop cfg n) (\<lambda>u.
     modify (\<lambda>s. if nextUnitOfWork s \<noteq> None \<and> nextPriorityLevel s > AnimationPriority
                  then requestDeferredCallback cfg s else s)))"

fun synchronousLoop :: "'h config \<Rightarrow> nat \<Rightarrow> (unit, 'h) run" where
  "synchronousLoop cfg 0 = (\<lambda>s. None)"
| "synchronousLoop cfg (Suc n) =
     bind (gets nextUnitOfWork) (\<lambda>w.
     bind (gets nextPriorityLevel) (\<lambda>lvl.
     case w of
       None \<Rightarrow> ret ()
     | Some f \<Rightarrow>
        if lvl = SynchronousPriority
        then bind (performNextUnit cfg n f) (\<lambda>u. synchronousLoop cfg n)
        else ret ()))"

definition performSynchronousWorkUnsafe :: "'h config \<Rightarrow> nat \<Rightarrow> (unit, 'h) run" where
  "performSynchronousWorkUnsafe cfg n =
     bind (findMoreWork cfg n) (\<lambda>u.
     bind (synchronousLoop cfg n) (\<lambda>u.
     modify (\<lambda>s. if nextUnitOfWork s \<noteq> None
                  then (if nextPriorityLevel s > AnimationPriority
                        then requestDeferredCallback cfg s
                        else requestAnimationCallback cfg s)
                  else s)))"

subsection \<open>performAndHandleErrors and the entry points\<close>

text \<open>The body of the \<open>try\<close> block of performAndHandleErrors (lines 575-586).\<close>

definition performWorkAtPriority :: "'h config \<Rightarrow> nat \<Rightarrow> priorityLevel \<Rightarrow> 'h deadline option
    \<Rightarrow> (unit, 'h) run" where
  "performWorkAtPriority cfg n priorityLevel deadline =
     (if priorityLevel = SynchronousPriority then performSynchronousWorkUnsafe cfg n
      else if priorityLevel > AnimationPriority then
        (case deadline of
           None \<Rightarrow> throw (Error ''No deadline'')
         | Some d \<Rightarrow> performDeferredWorkUnsafe cfg n d)
      else performAnimationWorkUnsafe cfg n)"

definition performAndHandleErrors :: "'h config \<Rightarrow> nat \<Rightarrow> priorityLevel \<Rightarrow> 'h deadline option
    \<Rightarrow> (unit, 'h) run" where
  "performAndHandleErrors cfg n priorityLevel deadline =
     tryCatch
       (performWorkAtPriority cfg n priorityLevel deadline)
       (\<lambda>error.
          bind (gets nextUnitOfWork) (\<lambda>failedUnitOfWork.
          bind (modify (\<lambda>s. s\<lparr>nextUnitOfWork := None\<rparr>)) (\<lambda>u.
          case failedUnitOfWork of
            None \<Rightarrow> throw error
          | Some f \<Rightarrow>
             bind (call (trapError cfg f error)) (\<lambda>trappedError.
             handleErrors cfg n [trappedError]))))"

definition performDeferredWork :: "'h config \<Rightarrow> nat \<Rightarrow> 'h deadline option \<Rightarrow> (unit, 'h) run" where
  "performDeferredWork cfg n deadline =
     bind (modify (\<lambda>s. s\<lparr>isDeferredCallbackScheduled := False\<rparr>)) (\<lambda>u.
     performAndHandleErrors cfg n LowPriority deadline)"

definition performAnimationWork :: "'h config \<Rightarrow> nat \<Rightarrow> (unit, 'h) run" where
  "performAnimationWork cfg n =
     bind (modify (\<lambda>s. s\<lparr>isAnimationCallbackScheduled := False\<rparr>)) (\<lambda>u.
     performAndHandleErrors cfg n AnimationPriority None)"

definition performSynchronousWork :: "'h config \<Rightarrow> nat \<Rightarrow> (unit, 'h) run" where
  "performSynchronousWork cfg n =
     bind (gets shouldBatchUpdates) (\<lambda>prev.
     bind (modify (\<lambda>s. s\<lparr>shouldBatchUpdates := True\<rparr>)) (\<lambda>u.
     tryFinally
       (performAndHandleErrors cfg n SynchronousPriority None)
       (modify (\<lambda>s. s\<lparr>shouldBatchUpdates := prev\<rparr>))))"

definition scheduleSynchronousWork :: "'h config \<Rightarrow> nat \<Rightarrow> root_ref \<Rightarrow> (unit, 'h) run" where
  "scheduleSynchronousWork cfg n r =
     bind (modify (\<lambda>s. setFiber (current (roots s r))
                          (\<lambda>x. x\<lparr>pendingWorkPriority := SynchronousPriority\<rparr>) s)) (\<lambda>u.
     bind (gets (\<lambda>s. isScheduled (roots s r))) (\<lambda>scheduled.
     if scheduled then ret ()
     else
       bind (modify (setRoot r (\<lambda>x. x\<lparr>isScheduled := True\<rparr>))) (\<lambda>u.
       bind (gets lastScheduledRoot) (\<lambda>last.
       case last of
         Some l \<Rightarrow>
           bind (modify (setRoot l (\<lambda>x. x\<lparr>rootNext := Some r\<rparr>))) (\<lambda>u.
           modify (\<lambda>s. s\<lparr>lastScheduledRoot := Some r\<rparr>))
       | None \<Rightarrow>
           bind (modify (\<lambda>s. s\<lparr>nextScheduledRoot := Some r\<rparr>)) (\<lambda>u.
           bind (modify (\<lambda>s. s\<lparr>lastScheduledRoot := Some r\<rparr>)) (\<lambda>u.
           bind (gets shouldBatchUpdates) (\<lambda>batching.
           if \<not> batching then performSynchronousWork cfg n else ret ())))))))"

subsection \<open>scheduleWork, scheduleUpdate and the scoped setters\<close>

definition scheduleWorkAtPriority :: "'h config \<Rightarrow> nat \<Rightarrow> root_ref \<Rightarrow> priorityLevel
    \<Rightarrow> (unit, 'h) run" where
  "scheduleWorkAtPriority cfg n r priorityLevel =
     (if priorityLevel = NoWork then ret ()
      else if priorityLevel = SynchronousPriority then scheduleSynchronousWork cfg n r
      else if priorityLevel \<le> AnimationPriority
      then modify (scheduleAnimationWork cfg r priorityLevel)
      else modify (scheduleDeferredWork cfg r priorityLevel))"

text \<open>scheduleWorkAtPriority when scheduleUpdate hands it a \<open>stateNode\<close> that is
  \<open>null\<close>: the first read of \<open>root.current\<close> throws, which in scheduleDeferredWork
  comes after the reset of \<open>nextUnitOfWork\<close>.\<close>

definition scheduleWorkAtPriorityNull :: "priorityLevel \<Rightarrow> (unit, 'h) run" where
  "scheduleWorkAtPriorityNull priorityLevel =
     (if priorityLevel = NoWork then ret ()
      else if priorityLevel = SynchronousPriority then throw TypeError
      else if priorityLevel \<le> AnimationPriority then throw TypeError
      else bind (modify (\<lambda>s. if priorityLevel \<le> nextPriorityLevel s
                              then s\<lparr>nextUnitOfWork := None\<rparr> else s)) (\<lambda>u.
           throw TypeError))"

definition scheduleWork :: "'h config \<Rightarrow> nat \<Rightarrow> root_ref \<Rightarrow> (unit, 'h) run" where
  "scheduleWork cfg n r =
     bind (gets priorityContext) (\<lambda>p. scheduleWorkAtPriority cfg n r p)"

text \<open>One step of the walk of scheduleUpdate (lines 690-699): the fiber, then its
  alternate.\<close>

definition raisePriority :: "priorityLevel \<Rightarrow> fiber_ref \<Rightarrow> 'h scheduler \<Rightarrow> 'h scheduler" where
  "raisePriority priorityLevel f s =
     (if pendingWorkPriority (fibers s f) = NoWork \<or> pendingWorkPriority (fibers s f) \<ge> priorityLevel
      then setFiber f (\<lambda>x. x\<lparr>pendingWorkPriority := priorityLevel\<rparr>) s
      else s)"

fun scheduleUpdateLoop :: "'h config \<Rightarrow> nat \<Rightarrow> priorityLevel \<Rightarrow> fiber_ref \<Rightarrow> (unit, 'h) run" where
  "scheduleUpdateLoop cfg 0 priorityLevel fiber = (\<lambda>s. None)"
| "scheduleUpdateLoop cfg (Suc n) priorityLevel fiber =
     bind (modify (raisePriority priorityLevel fiber)) (\<lambda>u.
     bind (gets (\<lambda>s. alternate (fibers s fiber))) (\<lambda>alt.
     bind (case alt of
             None \<Rightarrow> ret ()
           | Some a \<Rightarrow> modify (raisePriority priorityLevel a)) (\<lambda>u.
     bind (gets (\<lambda>s. returnFiber (fibers s fiber))) (\<lambda>parent.
     case parent of
       Some rf \<Rightarrow> scheduleUpdateLoop cfg n priorityLevel rf
     | None \<Rightarrow>
        bind (gets (\<lambda>s. tag (fibers s fiber))) (\<lambda>t.
        if t = HostContainer
        then bind (gets (\<lambda>s. stateNode (fibers s fiber))) (\<lambda>node.
             case node of
               Some r \<Rightarrow> scheduleWorkAtPriority cfg n r priorityLevel
             | None \<Rightarrow> scheduleWorkAtPriorityNull priorityLevel)
        else throw (Error ''Invalid root''))))))"

definition scheduleUpdate :: "'h config \<Rightarrow> nat \<Rightarrow> fiber_ref \<Rightarrow> (unit, 'h) run" where
  "scheduleUpdate cfg n fiber =
     bind (gets priorityContext) (\<lambda>priorityLevel. scheduleUpdateLoop cfg n priorityLevel fiber)"

definition performWithPriority :: "priorityLevel \<Rightarrow> ('a, 'h) ext \<Rightarrow> (unit, 'h) run" where
  "performWithPriority priorityLevel fn =
     bind (gets priorityContext) (\<lambda>previousPriorityContext.
     bind (modify (\<lambda>s. s\<lparr>priorityContext := priorityLevel\<rparr>)) (\<lambda>u.
     tryFinally
       (bind (call fn) (\<lambda>x. ret ()))
       (modify (\<lambda>s. s\<lparr>priorityContext := previousPriorityContext\<rparr>))))"

definition batchedUpdates :: "'h config \<Rightarrow> nat \<Rightarrow> ('a, 'h) ext \<Rightarrow> ('a, 'h) run" where
  "batchedUpdates cfg n fn =
     bind (gets shouldBatchUpdates) (\<lambda>prev.
     bind (modify (\<lambda>s. s\<lparr>shouldBatchUpdates := True\<rparr>)) (\<lambda>u.
     tryFinally
       (call fn)
       (bind (modify (\<lambda>s. s\<lparr>shouldBatchUpdates := prev\<rparr>)) (\<lambda>u.
        bind (gets shouldBatchUpdates) (\<lambda>batching.
        if \<not> batching then performSynchronousWork cfg n else ret ())))))"

definition syncUpdates :: "('a, 'h) ext \<Rightarrow> ('a, 'h) run" where
  "syncUpdates fn =
     bind (gets priorityContext) (\<lambda>previousPriorityContext.
     bind (modify (\<lambda>s. s\<lparr>priorityContext := SynchronousPriority\<rparr>)) (\<lambda>u.
     tryFinally
       (call fn)
       (modify (\<lambda>s. s\<lparr>priorityContext := previousPriorityContext\<rparr>))))"

text \<open>Lines 69-87: the variables of a fresh scheduler instance over given stores.\<close>

definition initialScheduler :: "'h config \<Rightarrow> (fiber_ref \<Rightarrow> fiber) \<Rightarrow> (root_ref \<Rightarrow> fiberRoot) \<Rightarrow> 'h
    \<Rightarrow> 'h scheduler" where
  "initialScheduler cfg fs rs h =
     \<lparr>priorityContext = (if useSyncScheduling cfg then SynchronousPriority else LowPriority),
      shouldBatchUpdates = False,
      nextUnitOfWork = None,
      nextPriorityLevel = NoWork,
      nextScheduledRoot = None,
      lastScheduledRoot = None,
      isAnimationCallbackScheduled = False,
      isDeferredCallbackScheduled = False,
      fibers = fs,
      roots = rs,
      currentOwner = None,
      host = h\<rparr>"

section \<open>Notions used in the statements\<close>

subsection \<open>Parts of source functions\<close>



subsection \<open>The stores read as lists\<close>



text \<open>The registry read as a list: \<open>rs\<close> are the roots met from \<open>p\<close> along
  \<open>rootNext\<close>, down to \<open>null\<close>.\<close>

primrec registry :: "(root_ref \<Rightarrow> fiberRoot) \<Rightarrow> root_ref option \<Rightarrow> root_ref list \<Rightarrow> bool" where
  "registry rts p [] \<longleftrightarrow> p = None"
| "registry rts p (r # rs) \<longleftrightarrow> p = Some r \<and> registry rts (rootNext (rts r)) rs"

text \<open>The root store after the roots \<open>gone\<close> have been unscheduled as in lines 93-97.\<close>

definition detachRoots :: "root_ref list \<Rightarrow> (root_ref \<Rightarrow> fiberRoot) \<Rightarrow> (root_ref \<Rightarrow> fiberRoot)" where
  "detachRoots gone rts =
     (\<lambda>r. if r \<in> set gone then (rts r)\<lparr>isScheduled := False, rootNext := None\<rparr> else rts r)"

text \<open>One iteration of the second loop of findNextUnitOfWork (lines 113-118) over a
  registry given as a list: \<open>best\<close> is the pair of \<open>highestPriorityRoot\<close> and
  \<open>highestPriorityLevel\<close>.\<close>

definition higherPriority :: "(root_ref \<Rightarrow> priorityLevel) \<Rightarrow> root_ref option \<times> priorityLevel \<Rightarrow> root_ref
    \<Rightarrow> root_ref option \<times> priorityLevel" where
  "higherPriority prio best r =
     (if prio r \<noteq> NoWork \<and> (snd best = NoWork \<or> snd best > prio r)
      then (Some r, prio r) else best)"

text \<open>What \<open>firstUncaughtError\<close> holds after a batch has been visited (first wins):
  its old value if it was set, else the error of the first entry of the batch without
  a boundary, if there is one.\<close>

definition firstUncaught :: "err option \<Rightarrow> trappedError list \<Rightarrow> err option" where
  "firstUncaught firstUncaughtError es =
     (case firstUncaughtError of
        Some e \<Rightarrow> Some e
      | None \<Rightarrow> map_option error (find (\<lambda>t. boundary t = None) es))"

subsection \<open>Frame conditions\<close>

text \<open>\<open>preserves R m\<close>: whenever the computation \<open>m\<close> returns or throws, the state
  it leaves is related by \<open>R\<close> to the state it started from.\<close>

definition preserves :: "('h scheduler \<Rightarrow> 'h scheduler \<Rightarrow> bool) \<Rightarrow> ('a, 'h) run \<Rightarrow> bool" where
  "preserves R m \<longleftrightarrow> (\<forall>s x s'. m s = Some (x, s') \<longrightarrow> R s s')"






section \<open>A recording host and concrete states\<close>

text \<open>
  The concrete runs below need collaborators. \<open>recordingConfig\<close> is a host whose
  state is the list of the calls it received: every reconciler and commit function
  appends its call and does nothing else, no fiber has a boundary (\<open>trapError\<close>
  answers with \<open>boundary = null\<close>), and \<open>cloneFiber\<close> reuses the alternate.
\<close>

datatype hostEvent =
    BeganWork fiber_ref
  | CompletedWork fiber_ref
  | Inserted fiber_ref
  | Deleted fiber_ref
  | CommittedWork "fiber_ref option" fiber_ref
  | LifeCycles "fiber_ref option" fiber_ref
  | Acknowledged fiber_ref err
  | Requested hostCallback

definition logEvent :: "hostEvent \<Rightarrow> hostEvent list scheduler \<Rightarrow> hostEvent list scheduler" where
  "logEvent e s = s\<lparr>host := host s @ [e]\<rparr>"

definition recordingConfig :: "hostEvent list config" where
  "recordingConfig =
     \<lparr>beginWork = (\<lambda>cur f p s. (Inr None, logEvent (BeganWork f) s)),
      completeWork = (\<lambda>cur f s. (Inr None, logEvent (CompletedWork f) s)),
      commitInsertion = (\<lambda>f s. (Inr (), logEvent (Inserted f) s)),
      commitDeletion = (\<lambda>f s. (Inr None, logEvent (Deleted f) s)),
      commitWork = (\<lambda>cur f s. (Inr (), logEvent (CommittedWork cur f) s)),
      commitLifeCycles = (\<lambda>cur f s. (Inr None, logEvent (LifeCycles cur f) s)),
      trapError = (\<lambda>f e s. (Inr \<lparr>boundary = None, error = e\<rparr>, s)),
      acknowledgeErrorInBoundary = (\<lambda>b e s. (Inr (), logEvent (Acknowledged b e) s)),
      cloneFiber = (\<lambda>f p s. case alternate (fibers s f) of
                       None \<Rightarrow> (Inl (Thrown 0), s)
                     | Some a \<Rightarrow> (Inr a, setFiber a (\<lambda>x. x\<lparr>pendingWorkPriority := p\<rparr>) s)),
      scheduleAnimationCallback = (\<lambda>cb h. h @ [Requested cb]),
      scheduleDeferredCallback = (\<lambda>cb h. h @ [Requested cb]),
      useSyncScheduling = False\<rparr>"

text \<open>The recording host with a beginWork that throws.\<close>

definition throwingBeginWork :: "hostEvent list config" where
  "throwingBeginWork = recordingConfig\<lparr>beginWork := (\<lambda>cur f p s. (Inl (Thrown 7), s))\<rparr>"

subsection \<open>States\<close>

definition blankFiber :: fiber where
  "blankFiber =
     \<lparr>tag = OtherTypeOfWork, stateNode = None, returnFiber = None, sibling = None,
      alternate = None, pendingProps = None, updateQueue = None, progressedChild = None,
      pendingWorkPriority = NoWork, effectTag = NoEffect, firstEffect = None,
      lastEffect = None, nextEffect = None\<rparr>"

definition blankRoot :: fiberRoot where
  "blankRoot = \<lparr>current = 0, isScheduled = False, rootNext = None\<rparr>"

definition blankScheduler :: "hostEvent list scheduler" where
  "blankScheduler = initialScheduler recordingConfig (\<lambda>f. blankFiber) (\<lambda>r. blankRoot) []"

text \<open>A low-priority render in flight: fiber 1 is the cursor.\<close>

definition midRender :: "hostEvent list scheduler" where
  "midRender = blankScheduler\<lparr>nextUnitOfWork := Some 1, nextPriorityLevel := LowPriority\<rparr>"

text \<open>A scheduled root 0 whose current fiber 1 has synchronous work pending.\<close>

definition urgentRoot :: "hostEvent list scheduler" where
  "urgentRoot = blankScheduler
     \<lparr>fibers := (\<lambda>f. blankFiber)
         (1 := blankFiber\<lparr>tag := HostContainer, stateNode := Some 0,
                          pendingWorkPriority := SynchronousPriority\<rparr>),
      roots := (\<lambda>r. blankRoot)(0 := blankRoot\<lparr>current := 1, isScheduled := True\<rparr>),
      nextScheduledRoot := Some 0, lastScheduledRoot := Some 0\<rparr>"

text \<open>A finished tree whose effect list holds one fiber, 2, tagged
  Placement and Callback.\<close>

definition placedWithCallback :: "hostEvent list scheduler" where
  "placedWithCallback = blankScheduler
     \<lparr>fibers := (\<lambda>f. blankFiber)
         (1 := blankFiber\<lparr>firstEffect := Some 2, lastEffect := Some 2\<rparr>,
          2 := blankFiber\<lparr>returnFiber := Some 1, effectTag := PlacementAndCallback\<rparr>)\<rparr>"


text \<open>A registry of four roots 5, 6, 7, 8 whose current fibers have no work, low,
  animation and animation priority.\<close>

definition busyRegistry :: "hostEvent list scheduler" where
  "busyRegistry = blankScheduler
     \<lparr>roots := (\<lambda>r. blankRoot)
        (5 := \<lparr>current = 10, isScheduled = True, rootNext = Some 6\<rparr>,
         6 := \<lparr>current = 11, isScheduled = True, rootNext = Some 7\<rparr>,
         7 := \<lparr>current = 12, isScheduled = True, rootNext = Some 8\<rparr>,
         8 := \<lparr>current = 13, isScheduled = True, rootNext = None\<rparr>),
      fibers := (\<lambda>f. blankFiber)
        (11 := blankFiber\<lparr>pendingWorkPriority := LowPriority\<rparr>,
         12 := blankFiber\<lparr>pendingWorkPriority := AnimationPriority, alternate := Some 22\<rparr>,
         13 := blankFiber\<lparr>pendingWorkPriority := AnimationPriority\<rparr>,
         22 := blankFiber\<lparr>alternate := Some 12\<rparr>),
      nextScheduledRoot := Some 5,
      lastScheduledRoot := Some 8\<rparr>"

text \<open>Root 0 with synchronous work pending on its current fiber 1, whose alternate 2
  is the work in progress.\<close>

definition syncUpdateReady :: "hostEvent list scheduler" where
  "syncUpdateReady = blankScheduler
     \<lparr>fibers := (\<lambda>f. blankFiber)
         (1 := blankFiber\<lparr>tag := HostContainer, stateNode := Some 0, alternate := Some 2,
                          pendingWorkPriority := SynchronousPriority\<rparr>,
          2 := blankFiber\<lparr>tag := HostContainer, stateNode := Some 0, alternate := Some 1\<rparr>),
      roots := (\<lambda>r. blankRoot)(0 := \<lparr>current = 1, isScheduled = True, rootNext = None\<rparr>),
      nextScheduledRoot := Some 0, lastScheduledRoot := Some 0\<rparr>"

section \<open>Properties\<close>

lemmas sideEffect_defs =
  NoEffect_def Placement_def Update_def PlacementAndUpdate_def Deletion_def Callback_def
  PlacementAndCallback_def UpdateAndCallback_def PlacementAndUpdateAndCallback_def
  DeletionAndCallback_def

lemmas run_defs = ret_def throw_def bind_def gets_def modify_def call_def tryCatch_def tryFinally_def
lemmas store_defs = setFiber_def setRoot_def rootPriority_def
lemmas prio_defs = less_eq_priorityLevel_def less_priorityLevel_def

lemma nextUnitOfWork_requestDeferredCallback [simp]:
  "nextUnitOfWork (requestDeferredCallback cfg s) = nextUnitOfWork s"
  by (simp add: requestDeferredCallback_def)

lemma nextUnitOfWork_requestAnimationCallback [simp]:
  "nextUnitOfWork (requestAnimationCallback cfg s) = nextUnitOfWork s"
  by (simp add: requestAnimationCallback_def)

lemma fibers_requestDeferredCallback [simp]:
  "fibers (requestDeferredCallback cfg s) = fibers s"
  by (simp add: requestDeferredCallback_def)

lemma fibers_requestAnimationCallback [simp]:
  "fibers (requestAnimationCallback cfg s) = fibers s"
  by (simp add: requestAnimationCallback_def)

lemma scheduleSynchronousWork_enqueue_only:
  "isScheduled (roots s r) \<or> lastScheduledRoot s \<noteq> None \<or> shouldBatchUpdates s \<Longrightarrow>
   scheduleSynchronousWork cfg n r s =
     Some (Inr (),
       (let s1 = setFiber (current (roots s r)) (\<lambda>x. x\<lparr>pendingWorkPriority := SynchronousPriority\<rparr>) s
        in if isScheduled (roots s r) then s1
           else (let s2 = setRoot r (\<lambda>x. x\<lparr>isScheduled := True\<rparr>) s1
                 in case lastScheduledRoot s of
                      Some l \<Rightarrow> (setRoot l (\<lambda>x. x\<lparr>rootNext := Some r\<rparr>) s2)\<lparr>lastScheduledRoot := Some r\<rparr>
                    | None \<Rightarrow> s2\<lparr>nextScheduledRoot := Some r, lastScheduledRoot := Some r\<rparr>)))"
  by (auto simp: scheduleSynchronousWork_def run_defs store_defs Let_def split: option.splits)

subsection \<open>Interruption of the work in flight\<close>

text \<open>
  C1 (as amended). scheduleDeferredWork at priority \<open>p\<close> sets \<open>nextUnitOfWork\<close> to
  \<open>null\<close> when \<open>p \<le> nextPriorityLevel\<close> and leaves it alone otherwise.
  scheduleAnimationWork never touches \<open>nextUnitOfWork\<close>, and neither does
  scheduleSynchronousWork when it only enqueues (the root is already scheduled, the
  registry is not empty, or updates are batched): the animation and synchronous work
  loops start with findNextUnitOfWork instead.
\<close>

theorem interruption_amended:
  "(priority \<le> nextPriorityLevel s \<longrightarrow>
      nextUnitOfWork (scheduleDeferredWork cfg r priority s) = None) \<and>
   (\<not> priority \<le> nextPriorityLevel s \<longrightarrow>
      nextUnitOfWork (scheduleDeferredWork cfg r priority s) = nextUnitOfWork s) \<and>
   nextUnitOfWork (scheduleAnimationWork cfg r priority s) = nextUnitOfWork s \<and>
   (isScheduled (roots s r) \<or> lastScheduledRoot s \<noteq> None \<or> shouldBatchUpdates s \<longrightarrow>
      (\<exists>s'. scheduleSynchronousWork cfg n r s = Some (Inr (), s') \<and>
            nextUnitOfWork s' = nextUnitOfWork s))"
proof -
  have "nextUnitOfWork (scheduleDeferredWork cfg r priority s) =
          (if priority \<le> nextPriorityLevel s then None else nextUnitOfWork s)"
    by (simp add: scheduleDeferredWork_def store_defs Let_def split: option.splits)
  moreover have "nextUnitOfWork (scheduleAnimationWork cfg r priority s) = nextUnitOfWork s"
    by (simp add: scheduleAnimationWork_def store_defs Let_def split: option.splits)
  moreover have "isScheduled (roots s r) \<or> lastScheduledRoot s \<noteq> None \<or> shouldBatchUpdates s \<Longrightarrow>
      \<exists>s'. scheduleSynchronousWork cfg n r s = Some (Inr (), s') \<and>
            nextUnitOfWork s' = nextUnitOfWork s"
    by (simp only: scheduleSynchronousWork_enqueue_only)
       (simp add: store_defs Let_def split: option.splits)
  ultimately show ?thesis by simp
qed

theorem interruption_amended_witness:
  "LowPriority \<le> nextPriorityLevel midRender \<and>
   nextUnitOfWork (scheduleDeferredWork recordingConfig 0 LowPriority midRender) = None \<and>
   \<not> LowPriority \<le> nextPriorityLevel (midRender\<lparr>nextPriorityLevel := AnimationPriority\<rparr>) \<and>
   nextUnitOfWork (scheduleDeferredWork recordingConfig 0 LowPriority
       (midRender\<lparr>nextPriorityLevel := AnimationPriority\<rparr>)) = Some 1 \<and>
   shouldBatchUpdates (midRender\<lparr>shouldBatchUpdates := True\<rparr>) \<and>
   (\<exists>s'. scheduleSynchronousWork recordingConfig 5 0 (midRender\<lparr>shouldBatchUpdates := True\<rparr>)
            = Some (Inr (), s') \<and> nextUnitOfWork s' = Some 1)"
  using interruption_amended [of LowPriority midRender recordingConfig 0 5]
    interruption_amended [of LowPriority "midRender\<lparr>nextPriorityLevel := AnimationPriority\<rparr>"
       recordingConfig 0 5]
    interruption_amended [of LowPriority "midRender\<lparr>shouldBatchUpdates := True\<rparr>"
       recordingConfig 0 5]
  by (simp add: midRender_def blankScheduler_def initialScheduler_def prio_defs)

text \<open>
  C1 as stated fails for scheduleAnimationWork: with a low-priority render in flight,
  scheduling animation work (\<open>Animation \<le> Low\<close>) leaves the cursor where it was.
\<close>

theorem interruption_counterexample:
  "AnimationPriority \<le> nextPriorityLevel midRender \<and>
   nextUnitOfWork (scheduleAnimationWork recordingConfig 0 AnimationPriority midRender) = Some 1"
  by (simp add: midRender_def blankScheduler_def initialScheduler_def scheduleAnimationWork_def
      store_defs Let_def prio_defs split: option.splits)

subsection \<open>Scoped priority context\<close>

lemma performWithPriority_eq:
  "performWithPriority p fn s =
     Some (case fst (fn (s\<lparr>priorityContext := p\<rparr>)) of Inl e \<Rightarrow> Inl e | Inr x \<Rightarrow> Inr (),
           (snd (fn (s\<lparr>priorityContext := p\<rparr>)))\<lparr>priorityContext := priorityContext s\<rparr>)"
  by (simp add: performWithPriority_def bind_def gets_def modify_def tryFinally_def call_def ret_def
      split: prod.splits sum.splits)

lemma syncUpdates_eq:
  "syncUpdates fn s =
     Some (fst (fn (s\<lparr>priorityContext := SynchronousPriority\<rparr>)),
           (snd (fn (s\<lparr>priorityContext := SynchronousPriority\<rparr>)))\<lparr>priorityContext := priorityContext s\<rparr>)"
  by (simp add: syncUpdates_def bind_def gets_def modify_def tryFinally_def call_def ret_def
      split: prod.splits sum.splits)

text \<open>
  C8. performWithPriority and syncUpdates return (or throw what \<open>fn\<close> throws) with
  \<open>priorityContext\<close> equal to its value before the call, for every prior context and
  every \<open>fn\<close>, whether \<open>fn\<close> returns or throws.
\<close>

theorem priorityContext_restored:
  "(\<exists>r s'. performWithPriority p fn s = Some (r, s') \<and>
       priorityContext s' = priorityContext s \<and>
       r = (case fst (fn (s\<lparr>priorityContext := p\<rparr>)) of Inl e \<Rightarrow> Inl e | Inr x \<Rightarrow> Inr ())) \<and>
   (\<exists>r s'. syncUpdates fn' s = Some (r, s') \<and>
       priorityContext s' = priorityContext s \<and>
       r = fst (fn' (s\<lparr>priorityContext := SynchronousPriority\<rparr>)))"
  by (simp add: performWithPriority_eq syncUpdates_eq)

subsection \<open>Scheduling does not deprioritize\<close>

lemma min_NoWork [simp]: "min NoWork p = p" "min p NoWork = p"
  by (cases p; simp add: min_def prio_defs)+

lemma le_NoWork [simp]: "p \<le> NoWork"
  by (cases p) (simp_all add: prio_defs)

lemma NoWork_le_iff [simp]: "NoWork \<le> p \<longleftrightarrow> p = NoWork"
  by (cases p) (simp_all add: prio_defs)

lemma Sync_le [simp]: "SynchronousPriority \<le> p"
  by (cases p) (simp_all add: prio_defs)

lemma fibers_setRoot [simp]: "fibers (setRoot r u s) = fibers s"
  by (simp add: setRoot_def)


lemma roots_setFiber [simp]: "roots (setFiber f u s) = roots s"
  by (simp add: setFiber_def)














subsection \<open>The callback bit during commit\<close>

lemmas fixture_defs = blankScheduler_def initialScheduler_def blankFiber_def blankRoot_def
  recordingConfig_def logEvent_def

text \<open>
  C2 (the code at the failing input). The claim asks that a fiber tagged
  Placement and Callback keeps its Callback bit through the mutation pass and gets
  commitLifeCycles in the second pass. The mutation pass assigns \<open>NoEffect\<close> to the
  whole tag instead, so the second pass skips the fiber: the host sees commitInsertion
  for fiber 2 and nothing else, and the tag ends as \<open>NoEffect\<close>.
\<close>

theorem callback_lost_with_placement:
  "effectTag (fibers placedWithCallback 2) = PlacementAndCallback \<and>
   map_option (\<lambda>(x, s'). (x, host s', effectTag (fibers s' 2)))
     (commitAllWork (handleErrors recordingConfig 2) recordingConfig 2 1 False placedWithCallback)
   = Some (Inr (), [Inserted 2], NoEffect)"
  by (simp add: placedWithCallback_def commitAllWork_def numeral_2_eq_2 fixture_defs
      run_defs store_defs sideEffect_defs)

subsection \<open>Rules for running computations\<close>

lemma bind_ret [simp]: "bind (ret x) f s = f x s"
  by (simp add: run_defs)

lemma bind_throw [simp]: "bind (throw e) f s = Some (Inl e, s)"
  by (simp add: run_defs)

lemma bind_gets [simp]: "bind (gets g) f s = f (g s) s"
  by (simp add: run_defs)

lemma bind_modify [simp]: "bind (modify g) f s = f () (g s)"
  by (simp add: run_defs)

lemma bind_call:
  "bind (call c) f s =
     (case fst (c s) of Inl e \<Rightarrow> Some (Inl e, snd (c s)) | Inr x \<Rightarrow> f x (snd (c s)))"
  by (simp add: run_defs split: prod.splits sum.splits)


lemma bind_throws: "m s = Some (Inl e, s') \<Longrightarrow> bind m f s = Some (Inl e, s')"
  by (simp add: run_defs)

lemma bind_diverges: "m s = None \<Longrightarrow> bind m f s = None"
  by (simp add: run_defs)

lemma ret_apply [simp]: "ret x s = Some (Inr x, s)"
  by (simp add: run_defs)

lemma throw_apply [simp]: "throw e s = Some (Inl e, s)"
  by (simp add: run_defs)

lemma modify_apply [simp]: "modify g s = Some (Inr (), g s)"
  by (simp add: run_defs)

lemma gets_apply [simp]: "gets g s = Some (Inr (g s), s)"
  by (simp add: run_defs)


subsection \<open>Effect lists bubble up at completion\<close>
















subsection \<open>findNextUnitOfWork picks the most urgent root\<close>

lemma registry_cong:
  "(\<And>x. x \<in> set rs \<Longrightarrow> rts' x = rts x) \<Longrightarrow> registry rts' p rs = registry rts p rs"
  by (induction rs arbitrary: p) auto

lemma detachRoots_Nil [simp]: "detachRoots [] rts = rts"
  by (simp add: detachRoots_def)

lemma detachRoots_Cons:
  "detachRoots (r # gone) rts =
     detachRoots gone (rts(r := (rts r)\<lparr>isScheduled := False, rootNext := None\<rparr>))"
  by (auto simp: detachRoots_def fun_eq_iff)

lemma scanRoots_foldl:
  "registry (roots s) p rs \<Longrightarrow> length rs < n \<Longrightarrow>
   scanRoots n s p hr hl = Some (foldl (higherPriority (rootPriority s)) (hr, hl) rs)"
proof (induction rs arbitrary: n p hr hl)
  case Nil
  then obtain m where "n = Suc m" by (cases n) auto
  with Nil show ?case by simp
next
  case (Cons r rs)
  then obtain m where n: "n = Suc m" by (cases n) auto
  from Cons.prems have p: "p = Some r" and reg: "registry (roots s) (rootNext (roots s r)) rs"
    and len: "length rs < m" by (auto simp: n)
  show ?case
    using Cons.IH [OF reg len] by (simp add: n p higherPriority_def)
qed

lemma lt_NoWork [simp]: "p < NoWork \<longleftrightarrow> p \<noteq> NoWork"
  by (cases p) (simp_all add: prio_defs)

lemma foldl_higherPriority:
  fixes prio :: "root_ref \<Rightarrow> priorityLevel"
  defines "best \<equiv> \<lambda>rs. foldl (higherPriority prio) (None, NoWork) rs"
  shows "(best rs = (None, NoWork) \<and> (\<forall>q\<in>set rs. prio q = NoWork)) \<or>
         (\<exists>pre r post. rs = pre @ r # post \<and> best rs = (Some r, prio r) \<and> prio r \<noteq> NoWork \<and>
             (\<forall>q\<in>set pre. prio r < prio q) \<and> (\<forall>q\<in>set post. prio r \<le> prio q))"
proof (induction rs rule: rev_induct)
  case Nil
  then show ?case by (simp add: best_def)
next
  case (snoc x rs)
  have step: "best (rs @ [x]) = higherPriority prio (best rs) x"
    by (simp add: best_def)
  from snoc show ?case
  proof (elim disjE exE conjE)
    assume none: "best rs = (None, NoWork)" "\<forall>q\<in>set rs. prio q = NoWork"
    show ?thesis
    proof (cases "prio x = NoWork")
      case True
      with none show ?thesis by (simp add: step higherPriority_def)
    next
      case False
      with none have "rs @ [x] = rs @ x # [] \<and> best (rs @ [x]) = (Some x, prio x) \<and>
          prio x \<noteq> NoWork \<and> (\<forall>q\<in>set rs. prio x < prio q) \<and> (\<forall>q\<in>set []. prio x \<le> prio q)"
        by (simp add: step higherPriority_def)
      then show ?thesis by blast
    qed
  next
    fix pre r post
    assume sel: "rs = pre @ r # post" "best rs = (Some r, prio r)" "prio r \<noteq> NoWork"
      "\<forall>q\<in>set pre. prio r < prio q" "\<forall>q\<in>set post. prio r \<le> prio q"
    have b: "best (rs @ [x]) = higherPriority prio (Some r, prio r) x"
      using step sel(2) by simp
    show ?thesis
    proof (cases "prio x \<noteq> NoWork \<and> prio r > prio x")
      case True
      then have "best (rs @ [x]) = (Some x, prio x)"
        by (simp add: b higherPriority_def)
      moreover have "\<forall>q\<in>set rs. prio x < prio q"
        using True sel(1,4,5) by auto
      ultimately have "rs @ [x] = rs @ x # [] \<and> best (rs @ [x]) = (Some x, prio x) \<and>
          prio x \<noteq> NoWork \<and> (\<forall>q\<in>set rs. prio x < prio q) \<and> (\<forall>q\<in>set []. prio x \<le> prio q)"
        using True by simp
      then show ?thesis by blast
    next
      case False
      then have "best (rs @ [x]) = (Some r, prio r)"
        using sel(3) by (auto simp: b higherPriority_def)
      moreover have "prio r \<le> prio x"
        using False by (cases "prio x = NoWork") auto
      ultimately have "rs @ [x] = pre @ r # (post @ [x]) \<and> best (rs @ [x]) = (Some r, prio r) \<and>
          prio r \<noteq> NoWork \<and> (\<forall>q\<in>set pre. prio r < prio q) \<and>
          (\<forall>q\<in>set (post @ [x]). prio r \<le> prio q)"
        using sel by simp
      then show ?thesis by blast
    qed
  qed
qed


lemma rootPriority_setRoot_link [simp]:
  "rootPriority (setRoot r (\<lambda>x. x\<lparr>rootNext := v\<rparr>) s) = rootPriority s"
  "rootPriority (setRoot r (\<lambda>x. x\<lparr>isScheduled := b\<rparr>) s) = rootPriority s"
  by (simp_all add: rootPriority_def setRoot_def fun_eq_iff)

lemma rootPriority_nextScheduledRoot [simp]:
  "rootPriority (s\<lparr>nextScheduledRoot := v\<rparr>) = rootPriority s"
  by (simp add: rootPriority_def fun_eq_iff)

lemma clearRoots_spec:
  assumes "registry (roots s) (nextScheduledRoot s) rs" "distinct rs"
    "lastScheduledRoot s = (if rs = [] then None else Some (last rs))" "length rs < n"
  shows "clearRoots n s =
    Some (dropWhile (\<lambda>r. rootPriority s r = NoWork) rs = [] \<and> rs \<noteq> [],
      s\<lparr>roots := detachRoots (takeWhile (\<lambda>r. rootPriority s r = NoWork) rs) (roots s),
        nextScheduledRoot := (case dropWhile (\<lambda>r. rootPriority s r = NoWork) rs of
                                [] \<Rightarrow> None | r # rest \<Rightarrow> Some r),
        lastScheduledRoot := (if dropWhile (\<lambda>r. rootPriority s r = NoWork) rs = [] then None
                              else lastScheduledRoot s),
        nextPriorityLevel := (if dropWhile (\<lambda>r. rootPriority s r = NoWork) rs = [] \<and> rs \<noteq> []
                              then NoWork else nextPriorityLevel s)\<rparr>)"
  using assms
proof (induction rs arbitrary: s n)
  case Nil
  then obtain m where n: "n = Suc m" by (cases n) auto
  from Nil show ?case by (simp add: n)
next
  case (Cons r rs)
  then obtain m where n: "n = Suc m" by (cases n) auto
  from Cons.prems have nx: "nextScheduledRoot s = Some r"
    and reg: "registry (roots s) (rootNext (roots s r)) rs"
    and dist: "r \<notin> set rs" "distinct rs"
    and lst: "lastScheduledRoot s = Some (last (r # rs))"
    and len: "length rs < m" by (auto simp: n)
  show ?case
  proof (cases "rootPriority s r = NoWork")
    case False
    then show ?thesis by (simp add: n nx)
  next
    case idle: True
    let ?s2 = "setRoot r (\<lambda>x. x\<lparr>rootNext := None\<rparr>) (setRoot r (\<lambda>x. x\<lparr>isScheduled := False\<rparr>) s)"
    have roots2: "roots ?s2 = (roots s)(r := (roots s r)\<lparr>isScheduled := False, rootNext := None\<rparr>)"
      by (simp add: setRoot_def)
    have e: "detachRoots [r] (roots s) = (roots s)(r := (roots s r)\<lparr>isScheduled := False, rootNext := None\<rparr>)"
      by (auto simp: detachRoots_def)
    show ?thesis
    proof (cases "rs = []")
      case True
      have "clearRoots n s = Some (True, ?s2\<lparr>nextScheduledRoot := None, lastScheduledRoot := None,
                                 nextPriorityLevel := NoWork\<rparr>)"
        using idle True by (simp add: n nx lst Let_def setRoot_def)
      also have "?s2 = s\<lparr>roots := detachRoots [r] (roots s)\<rparr>"
        unfolding e by (simp add: setRoot_def)
      finally show ?thesis
        using idle True by simp
    next
      case False
      let ?s3 = "?s2\<lparr>nextScheduledRoot := rootNext (roots s r)\<rparr>"
      have "last (r # rs) \<in> set rs" using False by simp
      with dist have neq: "last (r # rs) \<noteq> r" by metis
      have step: "clearRoots n s = clearRoots m ?s3"
        using idle neq by (simp add: n nx lst Let_def setRoot_def)
      have "registry (roots ?s3) (rootNext (roots s r)) rs =
            registry (roots s) (rootNext (roots s r)) rs"
        by (rule registry_cong) (use dist in \<open>auto simp: setRoot_def\<close>)
      with reg have reg3: "registry (roots ?s3) (nextScheduledRoot ?s3) rs"
        by (simp add: setRoot_def)
      have lst3: "lastScheduledRoot ?s3 = (if rs = [] then None else Some (last rs))"
        using False lst by (simp add: setRoot_def)
      have prio3: "rootPriority ?s3 = rootPriority s" by simp
      note ih = Cons.IH [OF reg3 dist(2) lst3 len, unfolded prio3]
      show ?thesis
        unfolding step ih using idle False by (simp add: detachRoots_Cons setRoot_def)
    qed
  qed
qed


lemma registry_append:
  "registry rts p (xs @ y # ys) \<Longrightarrow> (\<And>x. x \<in> set (y # ys) \<Longrightarrow> rts' x = rts x) \<Longrightarrow>
   registry rts' (Some y) (y # ys)"
proof (induction xs arbitrary: p)
  case Nil
  have "registry rts' p (y # ys) = registry rts p (y # ys)"
    by (rule registry_cong) (use Nil in auto)
  with Nil show ?case by simp
next
  case (Cons x xs)
  from Cons.prems(1) have "registry rts (rootNext (rts x)) (xs @ y # ys)" by simp
  then show ?case by (rule Cons.IH) (rule Cons.prems(2))
qed

lemma rootPriority_same:
  "fibers t = fibers s \<Longrightarrow> (\<And>x. current (roots t x) = current (roots s x)) \<Longrightarrow>
   rootPriority t = rootPriority s"
  by (simp add: rootPriority_def fun_eq_iff)

lemma rootPriority_detach [simp]:
  "rootPriority (s\<lparr>roots := detachRoots gone (roots s), nextScheduledRoot := a,
                  lastScheduledRoot := b, nextPriorityLevel := c\<rparr>) = rootPriority s"
  by (simp add: rootPriority_def detachRoots_def fun_eq_iff)

text \<open>
  C3. Let the registry be the list \<open>rs\<close> of distinct roots from \<open>nextScheduledRoot\<close>
  to \<open>lastScheduledRoot\<close>, and give findNextUnitOfWork more fuel than there are
  roots. It unschedules the leading roots \<open>gone\<close> whose current fiber has no work
  (clearing \<open>isScheduled\<close> and the link of each). If no root is left, it sets
  \<open>nextPriorityLevel\<close> to \<open>NoWork\<close> and returns \<open>null\<close>. Otherwise it picks from the
  remaining roots \<open>rest\<close> the root \<open>r\<close> of smallest pending priority, the earliest
  such root (every root before it is strictly less urgent, every root after it is not
  more urgent), sets \<open>nextPriorityLevel\<close> to that priority and returns
  cloneFiber of the current fiber of \<open>r\<close> at that priority.
\<close>

theorem findNextUnitOfWork_selects:
  assumes reg: "registry (roots s) (nextScheduledRoot s) rs" "distinct rs"
      "lastScheduledRoot s = (if rs = [] then None else Some (last rs))"
    and fuel: "length rs < n"
  defines "gone \<equiv> takeWhile (\<lambda>r. rootPriority s r = NoWork) rs"
    and "rest \<equiv> dropWhile (\<lambda>r. rootPriority s r = NoWork) rs"
  defines "s1 \<equiv> \<lambda>lvl. s\<lparr>roots := detachRoots gone (roots s),
                         nextScheduledRoot := (case rest of [] \<Rightarrow> None | r # rest' \<Rightarrow> Some r),
                         lastScheduledRoot := (if rest = [] then None else lastScheduledRoot s),
                         nextPriorityLevel := lvl\<rparr>"
  shows "(rest = [] \<longrightarrow> findNextUnitOfWork cfg n s = Some (Inr None, s1 NoWork)) \<and>
         (rest \<noteq> [] \<longrightarrow>
            (\<exists>pre r post. rest = pre @ r # post \<and>
               (\<forall>q\<in>set pre. rootPriority s r < rootPriority s q) \<and>
               (\<forall>q\<in>set post. rootPriority s r \<le> rootPriority s q) \<and>
               findNextUnitOfWork cfg n s =
                 bind (call (cloneFiber cfg (current (roots s r)) (rootPriority s r)))
                      (\<lambda>clone. ret (Some clone)) (s1 (rootPriority s r))))"
proof (intro conjI impI)
  note cr = clearRoots_spec [OF reg fuel, folded gone_def rest_def]
  from fuel obtain m where n: "n = Suc m" by (cases n) auto
  {
    assume e: "rest = []"
    show "findNextUnitOfWork cfg n s = Some (Inr None, s1 NoWork)"
    proof (cases "rs = []")
      case True
      with e show ?thesis
        by (simp add: findNextUnitOfWork_def cr s1_def) (simp add: n)
    next
      case False
      with e show ?thesis
        by (simp add: findNextUnitOfWork_def cr s1_def)
    qed
  }
  {
    assume ne: "rest \<noteq> []"
    let ?prio = "rootPriority s"
    let ?t = "s1 (nextPriorityLevel s)"
    obtain y ys where rest: "rest = y # ys" using ne by (cases rest) auto
    have rs: "rs = gone @ y # ys"
      unfolding gone_def rest [symmetric] rest_def by simp
    have y: "?prio y \<noteq> NoWork"
      using hd_dropWhile [of "\<lambda>r. rootPriority s r = NoWork" rs] ne rest
      by (simp add: rest_def)
    have "set gone \<inter> set (y # ys) = {}"
      using reg(2) unfolding rs by auto
    then have same: "\<And>x. x \<in> set (y # ys) \<Longrightarrow> roots ?t x = roots s x"
      by (auto simp: s1_def detachRoots_def)
    have reg1: "registry (roots ?t) (nextScheduledRoot ?t) rest"
      using registry_append [OF reg(1) [unfolded rs], of "roots ?t"] same
      by (simp add: s1_def rest)
    have len: "length rest < n" using fuel by (simp add: rs rest)
    have prio: "rootPriority ?t = ?prio"
      by (rule rootPriority_same) (simp_all add: s1_def detachRoots_def)
    have scan: "scanRoots n ?t (nextScheduledRoot ?t) None NoWork =
                  Some (foldl (higherPriority ?prio) (None, NoWork) rest)"
      using scanRoots_foldl [OF reg1 len, of None NoWork] unfolding prio .
    have "\<not> (\<forall>q\<in>set rest. ?prio q = NoWork)" using y rest by auto
    with foldl_higherPriority [of ?prio rest]
    obtain pre r post where sel: "rest = pre @ r # post"
        "foldl (higherPriority ?prio) (None, NoWork) rest = (Some r, ?prio r)"
        "\<forall>q\<in>set pre. ?prio r < ?prio q" "\<forall>q\<in>set post. ?prio r \<le> ?prio q"
      by blast
    have "r \<in> set (y # ys)" using sel(1) rest by auto
    then have cur: "current (roots ?t r) = current (roots s r)" using same by simp
    have cr': "clearRoots n s = Some (False, ?t)"
      using cr ne by (simp add: s1_def)
    have upd: "?t\<lparr>nextPriorityLevel := ?prio r\<rparr> = s1 (?prio r)"
      by (simp add: s1_def)
    have "findNextUnitOfWork cfg n s =
            bind (call (cloneFiber cfg (current (roots s r)) (?prio r)))
                 (\<lambda>clone. ret (Some clone)) (s1 (?prio r))"
      by (simp add: findNextUnitOfWork_def cr' scan sel(2) cur upd)
    with sel show "\<exists>pre r post. rest = pre @ r # post \<and>
               (\<forall>q\<in>set pre. rootPriority s r < rootPriority s q) \<and>
               (\<forall>q\<in>set post. rootPriority s r \<le> rootPriority s q) \<and>
               findNextUnitOfWork cfg n s =
                 bind (call (cloneFiber cfg (current (roots s r)) (rootPriority s r)))
                      (\<lambda>clone. ret (Some clone)) (s1 (rootPriority s r))"
      by blast
  }
qed


theorem findNextUnitOfWork_selects_witness:
  "map_option (\<lambda>(x, s'). (x, nextPriorityLevel s', nextScheduledRoot s', lastScheduledRoot s',
                           isScheduled (roots s' 5), rootNext (roots s' 5), isScheduled (roots s' 6)))
     (findNextUnitOfWork recordingConfig 5 busyRegistry)
   = Some (Inr (Some 22), AnimationPriority, Some 6, Some 8, False, None, True)"
proof -
  let ?s = busyRegistry
  have prio: "rootPriority ?s 5 = NoWork" "rootPriority ?s 6 = LowPriority"
      "rootPriority ?s 7 = AnimationPriority" "rootPriority ?s 8 = AnimationPriority"
    by (simp_all add: rootPriority_def busyRegistry_def blankFiber_def)
  have hyps: "registry (roots ?s) (nextScheduledRoot ?s) [5, 6, 7, 8]" "distinct [5::nat, 6, 7, 8]"
      "lastScheduledRoot ?s = (if [5::nat, 6, 7, 8] = [] then None else Some (last [5, 6, 7, 8]))"
      "length [5::nat, 6, 7, 8] < 5"
    by (simp_all add: busyRegistry_def)
  have split: "takeWhile (\<lambda>r. rootPriority ?s r = NoWork) [5, 6, 7, 8] = [5]"
      "dropWhile (\<lambda>r. rootPriority ?s r = NoWork) [5, 6, 7, 8] = [6, 7, 8]"
    by (simp_all add: prio)
  from findNextUnitOfWork_selects [OF hyps, of recordingConfig, unfolded split]
  obtain pre r post where sel: "[6, 7, 8] = pre @ r # post"
      "\<forall>q\<in>set pre. rootPriority ?s r < rootPriority ?s q"
      "\<forall>q\<in>set post. rootPriority ?s r \<le> rootPriority ?s q"
    and res: "findNextUnitOfWork recordingConfig 5 ?s =
       bind (call (cloneFiber recordingConfig (current (roots ?s r)) (rootPriority ?s r)))
            (\<lambda>clone. ret (Some clone))
            (?s\<lparr>roots := detachRoots [5] (roots ?s), nextScheduledRoot := Some 6,
                 lastScheduledRoot := lastScheduledRoot ?s,
                 nextPriorityLevel := rootPriority ?s r\<rparr>)"
    by auto
  from sel(1) have "(pre = [] \<and> r = 6 \<and> post = [7, 8]) \<or> (pre = [6] \<and> r = 7 \<and> post = [8]) \<or>
      (pre = [6, 7] \<and> r = 8 \<and> post = [])"
    by (auto simp: Cons_eq_append_conv)
  with sel(2,3) have r: "r = 7"
    by (auto simp: prio prio_defs)
  show ?thesis
    unfolding res r
    by (simp add: prio bind_call) (simp add: busyRegistry_def fixture_defs store_defs detachRoots_def)
qed

subsection \<open>What the work loop leaves untouched\<close>















lemma preserves_prod_fun:
  "(\<And>a b. preserves R (f a b)) \<Longrightarrow> preserves R (case_prod f x)"
  by (cases x) simp



































subsection \<open>Batching during a synchronous flush\<close>








subsection \<open>Errors thrown by the work loop\<close>

text \<open>
  C10. When the work performed by performAndHandleErrors throws \<open>e\<close> and leaves
  \<open>nextUnitOfWork\<close> null, performAndHandleErrors throws \<open>e\<close> from that very state,
  without trapError or handleErrors. When it leaves a unit \<open>f\<close> there,
  \<open>nextUnitOfWork\<close> is reset to null, then trapError is called on \<open>f\<close> and \<open>e\<close>,
  and handleErrors on the one trapped error it returns.
\<close>

theorem performAndHandleErrors_on_throw:
  assumes "performWorkAtPriority cfg n p d s = Some (Inl e, s')"
  shows "(nextUnitOfWork s' = None \<longrightarrow>
            performAndHandleErrors cfg n p d s = Some (Inl e, s')) \<and>
         (\<forall>f. nextUnitOfWork s' = Some f \<longrightarrow>
            performAndHandleErrors cfg n p d s =
              bind (call (trapError cfg f e)) (\<lambda>trappedError. handleErrors cfg n [trappedError])
                (s'\<lparr>nextUnitOfWork := None\<rparr>))"
proof (intro conjI allI impI)
  assume none: "nextUnitOfWork s' = None"
  then have "s'\<lparr>nextUnitOfWork := None\<rparr> = s'" by (cases s') simp
  with assms none show "performAndHandleErrors cfg n p d s = Some (Inl e, s')"
    by (simp add: performAndHandleErrors_def tryCatch_def)
next
  fix f assume "nextUnitOfWork s' = Some f"
  with assms show "performAndHandleErrors cfg n p d s =
      bind (call (trapError cfg f e)) (\<lambda>trappedError. handleErrors cfg n [trappedError])
        (s'\<lparr>nextUnitOfWork := None\<rparr>)"
    by (simp add: performAndHandleErrors_def tryCatch_def)
qed

lemmas work_defs = performWorkAtPriority_def
  performSynchronousWorkUnsafe_def findMoreWork_def findNextUnitOfWork_def
  performNextUnit_def performUnitOfWork_def commitAllWork_def resetWorkPriority_def
  appendEffects_def

theorem performAndHandleErrors_on_throw_witness:
  "map_option (\<lambda>(x, s'). (x, nextUnitOfWork s'))
     (performWorkAtPriority recordingConfig 4 SynchronousPriority None urgentRoot)
     = Some (Inl (Thrown 0), None) \<and>
   map_option fst (performAndHandleErrors recordingConfig 4 SynchronousPriority None urgentRoot)
     = Some (Inl (Thrown 0)) \<and>
   map_option (\<lambda>(x, s'). (x, nextUnitOfWork s'))
     (performWorkAtPriority throwingBeginWork 4 SynchronousPriority None syncUpdateReady)
     = Some (Inl (Thrown 7), Some 2) \<and>
   map_option (\<lambda>(x, s'). (x, nextUnitOfWork s', nextScheduledRoot s', lastScheduledRoot s'))
     (performAndHandleErrors throwingBeginWork 4 SynchronousPriority None syncUpdateReady)
     = Some (Inl (Thrown 7), None, None, None)"
proof -
  obtain s1 where w1: "performWorkAtPriority recordingConfig 4 SynchronousPriority None urgentRoot
      = Some (Inl (Thrown 0), s1)" and n1: "nextUnitOfWork s1 = None"
    by (simp add: urgentRoot_def work_defs fixture_defs run_defs store_defs
        sideEffect_defs prio_defs numeral_eq_Suc Let_def)
  obtain s2 where w2: "performWorkAtPriority throwingBeginWork 4 SynchronousPriority None syncUpdateReady
      = Some (Inl (Thrown 7), s2)" and n2: "nextUnitOfWork s2 = Some 2"
      and t2: "trapError throwingBeginWork 2 (Thrown 7) (s2\<lparr>nextUnitOfWork := None\<rparr>) =
                 (Inr \<lparr>boundary = None, error = Thrown 7\<rparr>, s2\<lparr>nextUnitOfWork := None\<rparr>)"
    by (simp add: syncUpdateReady_def throwingBeginWork_def work_defs fixture_defs run_defs store_defs
        sideEffect_defs prio_defs numeral_eq_Suc Let_def)
  from performAndHandleErrors_on_throw [OF w1] n1
  have r1: "performAndHandleErrors recordingConfig 4 SynchronousPriority None urgentRoot
      = Some (Inl (Thrown 0), s1)" by simp
  from performAndHandleErrors_on_throw [OF w2] n2
  have r2: "performAndHandleErrors throwingBeginWork 4 SynchronousPriority None syncUpdateReady
      = bind (call (trapError throwingBeginWork 2 (Thrown 7)))
          (\<lambda>trappedError. handleErrors throwingBeginWork 4 [trappedError])
          (s2\<lparr>nextUnitOfWork := None\<rparr>)" by simp
  have h: "map_option (\<lambda>(x, s'). (x, nextUnitOfWork s', nextScheduledRoot s', lastScheduledRoot s'))
     (handleErrors throwingBeginWork 4 [\<lparr>boundary = None, error = Thrown 7\<rparr>] (s2\<lparr>nextUnitOfWork := None\<rparr>))
     = Some (Inl (Thrown 7), None, None, None)"
    by (simp add: numeral_eq_Suc surfaceUncaughtError_def run_defs)
  show ?thesis
    by (simp add: w1 n1 w2 n2 r1 r2 bind_call t2 h)
qed

subsection \<open>The first uncaught error\<close>


lemma firstUncaught_Some [simp]: "firstUncaught (Some e) es = Some e"
  by (simp add: firstUncaught_def)







subsection \<open>Only a commit replaces the current tree\<close>


lemma current_setRoot_link [simp]:
  "current (roots (setRoot r (\<lambda>x. x\<lparr>isScheduled := b\<rparr>) s) x) = current (roots s x)"
  "current (roots (setRoot r (\<lambda>x. x\<lparr>rootNext := v\<rparr>) s) x) = current (roots s x)"
  by (simp_all add: setRoot_def)

lemma roots_requestCallback [simp]:
  "roots (requestDeferredCallback cfg s) = roots s"
  "roots (requestAnimationCallback cfg s) = roots s"
  by (simp_all add: requestDeferredCallback_def requestAnimationCallback_def)












end
